theory Spec2Isabelle
  imports Main "HOL-Library.Word"
begin

unbundle bit_operations_syntax

section \<open>Data model\<close>

text \<open>
  A \<open>Uint8Array\<close> is a list of 8-bit words. JavaScript \<open>bigint\<close> values are
  unbounded integers; the \<open>number\<close> values that reach the code modelled here
  (code sizes, versions, presence indicators) are integers as well.
\<close>

type_synonym byte = "8 word"
type_synonym bytes = "byte list"

text \<open>
  The source throws \<open>EthereumJSErrorWithoutCode(msg)\<close> for malformed input and a
  plain \<open>Error(msg)\<close> in three places: the field accessors (a field that is not
  loaded), \<open>isContract\<close> (not enough data) and the factories (an input shape
  that is not supported). The four kinds keep the thrown message.
\<close>

datatype error =
    InvalidInput string
  | NotLoaded string
  | MissingData string
  | UnsupportedOperation string

text \<open>
  A constructor or factory argument is omitted (\<open>undefined\<close>), the explicit
  absent marker (\<open>null\<close>), or a value.
\<close>

datatype 'a arg = Undefined | Null | Value 'a

text \<open>A default parameter: \<open>undefined\<close> takes the default, \<open>null\<close> is retained.\<close>

fun withDefault :: "'a \<Rightarrow> 'a arg \<Rightarrow> 'a option" where
  "withDefault d Undefined = Some d"
| "withDefault d Null = None"
| "withDefault d (Value x) = Some x"

text \<open>
  The class \<open>Account\<close>: six backing fields \<open>_nonce\<close>, \<open>_balance\<close>,
  \<open>_storageRoot\<close>, \<open>_codeHash\<close>, \<open>_codeSize\<close>, \<open>_version\<close>, each a value or
  \<open>null\<close> (\<open>None\<close>).
\<close>

record Account =
  p_nonce :: "int option"
  p_balance :: "int option"
  p_storageRoot :: "bytes option"
  p_codeHash :: "bytes option"
  p_codeSize :: "int option"
  p_version :: "int option"

text \<open>\<open>AccountBodyBytes\<close>: the tuple \<open>[nonce, balance, storageRoot, codeHash]\<close>.\<close>

type_synonym AccountBodyBytes = "bytes \<times> bytes \<times> bytes \<times> bytes"

text \<open>
  The decoded form of an RLP item (\<open>Uint8Array | NestedUint8Array\<close>): a byte
  string or a list of items.
\<close>

datatype rlp = Bytes bytes | Items "rlp list"

section \<open>Constants and helpers imported by the sources\<close>

text \<open>
  Modelled from the spec: \<open>constants.ts\<close> is not among the sources. The
  empty-code hash \<open>KECCAK256_NULL\<close> is
  \<open>c5d2460186f7233c927e7db2dcc703c0e500b653ca82273b7bfad8045d85a470\<close> and the
  empty-trie-root hash \<open>KECCAK256_RLP\<close> is
  \<open>56e81f171bcc55a6ff8345e692c0f86e5b48e01b996cadc001622fb5e363b421\<close>.
\<close>

definition KECCAK256_NULL :: bytes where
  "KECCAK256_NULL =
    [0xc5, 0xd2, 0x46, 0x01, 0x86, 0xf7, 0x23, 0x3c, 0x92, 0x7e, 0x7d, 0xb2, 0xdc, 0xc7, 0x03, 0xc0,
     0xe5, 0x00, 0xb6, 0x53, 0xca, 0x82, 0x27, 0x3b, 0x7b, 0xfa, 0xd8, 0x04, 0x5d, 0x85, 0xa4, 0x70]"

definition KECCAK256_RLP :: bytes where
  "KECCAK256_RLP =
    [0x56, 0xe8, 0x1f, 0x17, 0x1b, 0xcc, 0x55, 0xa6, 0xff, 0x83, 0x45, 0xe6, 0x92, 0xc0, 0xf8, 0x6e,
     0x5b, 0x48, 0xe0, 0x1b, 0x99, 0x6c, 0xad, 0xc0, 0x01, 0x62, 0x2f, 0xb5, 0xe3, 0x63, 0xb4, 0x21]"

text \<open>
  Modelled from the spec: \<open>bytes.ts\<close> is not among the sources.
  \<open>equalsBytes\<close> compares two byte strings byte by byte.
\<close>

definition equalsBytes :: "bytes \<Rightarrow> bytes \<Rightarrow> bool" where
  "equalsBytes a b = (a = b)"

text \<open>
  Modelled from the spec: \<open>bytesToBigInt\<close> reads a byte string as a big-endian
  unsigned integer; the empty string is 0.
\<close>

definition bytesToBigInt :: "bytes \<Rightarrow> int" where
  "bytesToBigInt bs = foldl (\<lambda>acc b. acc * 256 + uint b) 0 bs"

text \<open>
  Modelled from the spec: \<open>bytesToInt\<close> is the same reading, as a plain
  \<open>number\<close>.
\<close>

definition bytesToInt :: "bytes \<Rightarrow> int" where
  "bytesToInt bs = bytesToBigInt bs"

text \<open>Decimal rendering of an integer, as a template literal or \<open>toString()\<close> gives it.\<close>

definition decimalDigit :: "nat \<Rightarrow> char" where
  "decimalDigit d = ''0123456789'' ! (d mod 10)"

fun toString_nat :: "nat \<Rightarrow> string" where
  "toString_nat n =
    (if n < 10 then [decimalDigit n]
     else toString_nat (n div 10) @ [decimalDigit (n mod 10)])"

declare toString_nat.simps [simp del]

definition toString :: "int \<Rightarrow> string" where
  "toString i = (if i < 0 then CHR ''-'' # toString_nat (nat (- i)) else toString_nat (nat i))"

text \<open>
  The unchecked cast \<open>as Uint8Array\<close>: the helpers of \<open>bytes.ts\<close> take byte
  strings, so an item that is itself a list is rejected.
\<close>

fun asUint8Array :: "rlp \<Rightarrow> error + bytes" where
  "asUint8Array (Bytes b) = Inr b"
| "asUint8Array (Items xs) = Inl (InvalidInput ''expected a byte string'')"

subsection \<open>Results that may fail\<close>

text \<open>Sequencing: a thrown error ends the computation.\<close>

definition andThen :: "error + 'a \<Rightarrow> ('a \<Rightarrow> error + 'b) \<Rightarrow> error + 'b" where
  "andThen r f = (case r of Inl e \<Rightarrow> Inl e | Inr x \<Rightarrow> f x)"

subsection \<open>Strings (helpers.ts, internal.ts and the language's own operations)\<close>

text \<open>
  A JavaScript string is modelled as a list of 8-bit characters. Every string
  function of the sources is applied behind \<open>assertIsHexString\<close>, which admits
  the characters \<open>0-9\<close>, \<open>a-f\<close>, \<open>A-F\<close> and the prefix only, so the case
  conversions are those of the ASCII letters.
\<close>

definition toLowerCase_char :: "char \<Rightarrow> char" where
  "toLowerCase_char c =
    (let n = of_char c :: nat in if 65 \<le> n \<and> n \<le> 90 then char_of (n + 32) else c)"

definition toUpperCase_char :: "char \<Rightarrow> char" where
  "toUpperCase_char c =
    (let n = of_char c :: nat in if 97 \<le> n \<and> n \<le> 122 then char_of (n - 32) else c)"

definition toLowerCase :: "string \<Rightarrow> string" where
  "toLowerCase s = map toLowerCase_char s"

text \<open>The value of a hexadecimal digit; \<open>None\<close> for any other character.\<close>

definition hexDigitValue :: "char \<Rightarrow> nat option" where
  "hexDigitValue c =
    (let n = of_char c :: nat
     in if 48 \<le> n \<and> n \<le> 57 then Some (n - 48)
        else if 97 \<le> n \<and> n \<le> 102 then Some (n - 87)
        else if 65 \<le> n \<and> n \<le> 70 then Some (n - 55)
        else None)"

definition isHexDigit :: "char \<Rightarrow> bool" where
  "isHexDigit c = (hexDigitValue c \<noteq> None)"

text \<open>
  Modelled from the spec: \<open>helpers.ts\<close> and \<open>internal.ts\<close> are not among the
  sources. A well-formed hex string is \<open>0x\<close> followed by hexadecimal digits
  (the pattern \<open>^0x[0-9A-Fa-f]*$\<close>); \<open>assertIsHexString\<close> throws on any other
  string; \<open>stripHexPrefix\<close> removes a leading \<open>0x\<close>.
\<close>

definition isHexString :: "string \<Rightarrow> bool" where
  "isHexString s = (take 2 s = ''0x'' \<and> list_all isHexDigit (drop 2 s))"

definition assertIsHexString :: "string \<Rightarrow> error + unit" where
  "assertIsHexString input =
    (if \<not> isHexString input then
       Inl (InvalidInput
         (''This method only supports 0x-prefixed hex strings but input was: '' @ input))
     else Inr ())"

definition isHexPrefixed :: "string \<Rightarrow> bool" where
  "isHexPrefixed str = (take 2 str = ''0x'')"

definition stripHexPrefix :: "string \<Rightarrow> string" where
  "stripHexPrefix str = (if isHexPrefixed str then drop 2 str else str)"

text \<open>\<open>s[i]\<close> is \<open>undefined\<close> (\<open>None\<close>) beyond the end of the string.\<close>

definition charAt :: "string \<Rightarrow> nat \<Rightarrow> char option" where
  "charAt s i = (if i < length s then Some (s ! i) else None)"

text \<open>
  \<open>parseInt(c, 16)\<close> of a one-character string or of \<open>undefined\<close>: the digit's
  value, or \<open>NaN\<close> (\<open>None\<close>). Every comparison with \<open>NaN\<close> is false.
\<close>

definition parseInt16 :: "char option \<Rightarrow> nat option" where
  "parseInt16 c = (case c of None \<Rightarrow> None | Some d \<Rightarrow> hexDigitValue d)"

definition atLeast8 :: "nat option \<Rightarrow> bool" where
  "atLeast8 n = (case n of None \<Rightarrow> False | Some d \<Rightarrow> d \<ge> 8)"

subsection \<open>Byte strings (bytes.ts)\<close>

text \<open>
  Modelled from the spec: the minimal big-endian bytes of a non-negative integer,
  the empty string for 0 and no leading zero byte otherwise
  (\<open>bigIntToUnpaddedBytes\<close> for a \<open>bigint\<close>, \<open>intToUnpaddedBytes\<close> for a
  \<open>number\<close>). A negative value has no byte form and is rejected.
\<close>

fun natToBytes :: "nat \<Rightarrow> bytes" where
  "natToBytes n = (if n = 0 then [] else natToBytes (n div 256) @ [of_nat (n mod 256)])"

declare natToBytes.simps [simp del]

definition bigIntToUnpaddedBytes :: "int \<Rightarrow> error + bytes" where
  "bigIntToUnpaddedBytes n =
    (if n < 0 then
       Inl (InvalidInput (''Cannot convert negative bigint to Uint8Array. Given: '' @ toString n))
     else Inr (natToBytes (nat n)))"

definition intToUnpaddedBytes :: "int \<Rightarrow> error + bytes" where
  "intToUnpaddedBytes i =
    (if i < 0 then Inl (InvalidInput (''Received an invalid integer type: '' @ toString i))
     else Inr (natToBytes (nat i)))"

text \<open>
  Modelled from the spec: \<open>hexToBytes\<close> reads the digits after the prefix two
  by two, an odd number of digits being padded with a leading \<open>0\<close>;
  \<open>bytesToHex\<close> renders a byte string as \<open>0x\<close> and two lower-case digits per
  byte; \<open>utf8ToBytes\<close> is the UTF-8 encoding (one byte below 128, two bytes for
  the other 8-bit characters); \<open>concatBytes\<close> joins byte strings.
\<close>

definition hexValue :: "char \<Rightarrow> nat" where
  "hexValue c = (case hexDigitValue c of None \<Rightarrow> 0 | Some d \<Rightarrow> d)"

fun hexPairs :: "string \<Rightarrow> bytes" where
  "hexPairs (a # b # cs) = of_nat (16 * hexValue a + hexValue b) # hexPairs cs"
| "hexPairs _ = []"

definition hexToBytes :: "string \<Rightarrow> bytes" where
  "hexToBytes s =
    (let h = drop 2 s in hexPairs (if odd (length h) then CHR ''0'' # h else h))"

definition hexDigit :: "nat \<Rightarrow> char" where
  "hexDigit d = ''0123456789abcdef'' ! (d mod 16)"

definition bytesToHex :: "bytes \<Rightarrow> string" where
  "bytesToHex bs =
    ''0x'' @ concat (map (\<lambda>b. [hexDigit (unat b div 16), hexDigit (unat b mod 16)]) bs)"

definition utf8ToBytes :: "string \<Rightarrow> bytes" where
  "utf8ToBytes s =
    concat (map (\<lambda>c. let n = of_char c :: nat
                      in if n < 128 then [of_nat n]
                         else [of_nat (192 + n div 64), of_nat (128 + n mod 64)]) s)"

definition concatBytes :: "bytes list \<Rightarrow> bytes" where
  "concatBytes arrays = concat arrays"

text \<open>\<open>bytes.subarray(-n)\<close>: the last \<open>n\<close> bytes, or all of them when there are fewer.\<close>

definition subarray_last :: "nat \<Rightarrow> bytes \<Rightarrow> bytes" where
  "subarray_last n bs = drop (length bs - n) bs"

text \<open>
  The values of the types \<open>BigIntLike\<close> and \<open>BytesLike\<close>: a \<open>bigint\<close>, a
  \<open>number\<close>, a string, a \<open>Uint8Array\<close>, an array of numbers, or an object with
  its own \<open>toBytes()\<close> (given by what that returns).
\<close>

datatype BytesLike =
    BigInt int
  | Number int
  | HexString string
  | Uint8Array bytes
  | NumberArray "int list"
  | Transformable bytes

text \<open>
  Modelled from the spec: \<open>toBytes\<close> is the coercion of such a value to bytes,
  so that \<open>bytesToBigInt (toBytes x)\<close> is the integer that \<open>x\<close> stands for. A
  \<open>bigint\<close> or \<open>number\<close> gives its big-endian bytes (one zero byte for 0); a
  negative value and a string that is not a hex string are rejected.
\<close>

definition paddedBytes :: "nat \<Rightarrow> bytes" where
  "paddedBytes n = (if n = 0 then [0] else natToBytes n)"

definition intToBytes :: "int \<Rightarrow> error + bytes" where
  "intToBytes i =
    (if i < 0 then Inl (InvalidInput (''Received an invalid integer type: '' @ toString i))
     else Inr (paddedBytes (nat i)))"

definition toBytes :: "BytesLike \<Rightarrow> error + bytes" where
  "toBytes x =
    (case x of
       Uint8Array b \<Rightarrow> Inr b
     | NumberArray ns \<Rightarrow> Inr (map word_of_int ns)
     | HexString s \<Rightarrow>
         if \<not> isHexString s then
           Inl (InvalidInput (''Cannot convert string to Uint8Array: '' @ s))
         else Inr (hexToBytes s)
     | Number n \<Rightarrow> intToBytes n
     | BigInt n \<Rightarrow>
         if n < 0 then
           Inl (InvalidInput (''Cannot convert negative bigint to Uint8Array. Given: '' @ toString n))
         else Inr (paddedBytes (nat n))
     | Transformable b \<Rightarrow> Inr b)"

subsection \<open>RLP (the package @ethereumjs/rlp)\<close>

text \<open>
  Modelled from the spec: the RLP package is not among the sources. A byte string
  of length 1 whose byte is below \<open>0x80\<close> encodes as itself; every other byte
  string and every list encodes as a length header followed by the payload. A
  payload shorter than 56 bytes has the one-byte header \<open>offset + length\<close>; a
  longer one has \<open>offset + 55 + n\<close> followed by the \<open>n\<close> big-endian bytes of the
  length. The offset is \<open>0x80\<close> for byte strings and \<open>0xc0\<close> for lists.
\<close>

definition encodeLength :: "nat \<Rightarrow> nat \<Rightarrow> bytes" where
  "encodeLength len offset =
    (if len < 56 then [of_nat (len + offset)]
     else (let hexLength = natToBytes len
           in of_nat (offset + 55 + length hexLength) # hexLength))"

fun RLP_encode :: "rlp \<Rightarrow> bytes" where
  "RLP_encode (Bytes b) =
    (if length b = 1 \<and> b ! 0 < 128 then b else encodeLength (length b) 128 @ b)"
| "RLP_encode (Items xs) =
    (let output = concat (map RLP_encode xs) in encodeLength (length output) 192 @ output)"

text \<open>
  Modelled from the spec: decoding is the inverse reading and rejects malformed
  length prefixes (a slice beyond the input, a single byte below \<open>0x80\<close> with a
  prefix, a long form for a short payload, a length with leading zeros) and
  input left over after the top-level item. The recursion follows the nesting
  of the input; it is bounded by a counter that \<open>RLP_decode\<close> starts above twice
  the length of the input. The counter never runs out (lemma \<open>RLP_decode_fuel\<close>),
  so the error \<open>nestingTooDeep\<close> of the model is never the result of
  \<open>RLP_decode\<close>.
\<close>

definition nestingTooDeep :: error where
  "nestingTooDeep = InvalidInput ''invalid RLP: nesting too deep''"

definition safeSlice :: "bytes \<Rightarrow> nat \<Rightarrow> nat \<Rightarrow> error + bytes" where
  "safeSlice input start end =
    (if end > length input then
       Inl (InvalidInput ''invalid RLP (safeSlice): end slice of Uint8Array out-of-bounds'')
     else Inr (take (end - start) (drop start input)))"

definition decodeLength :: "bytes \<Rightarrow> error + nat" where
  "decodeLength bs =
    (case bs of
       [] \<Rightarrow> Inl (InvalidInput ''invalid RLP: empty length'')
     | b # _ \<Rightarrow>
         if b = 0 then Inl (InvalidInput ''invalid RLP: extra zeros'')
         else Inr (nat (bytesToBigInt bs)))"

fun decode_item :: "nat \<Rightarrow> bytes \<Rightarrow> error + (rlp \<times> bytes)"
  and decode_list :: "nat \<Rightarrow> bytes \<Rightarrow> error + rlp list" where
  "decode_item 0 input = Inl (InvalidInput ''invalid RLP: nesting too deep'')"
| "decode_item (Suc k) input =
    (case input of
       [] \<Rightarrow> Inl (InvalidInput ''invalid RLP: no input'')
     | firstByte # _ \<Rightarrow>
         if firstByte \<le> 0x7f then Inr (Bytes [firstByte], drop 1 input)
         else if firstByte \<le> 0xb7 then
           (let len = unat firstByte - 0x7f
            in andThen (if firstByte = 0x80 then Inr [] else safeSlice input 1 len) (\<lambda>data.
                 if len = 2 \<and> data ! 0 < 0x80 then
                   Inl (InvalidInput
                     ''invalid RLP encoding: invalid prefix, single byte < 0x80 are not prefixed'')
                 else Inr (Bytes data, drop len input)))
         else if firstByte \<le> 0xbf then
           (let llength = unat firstByte - 0xb6
            in if length input - 1 < llength then
                 Inl (InvalidInput ''invalid RLP: not enough bytes for string length'')
               else
                 andThen (safeSlice input 1 llength) (\<lambda>lenBytes.
                 andThen (decodeLength lenBytes) (\<lambda>len.
                   if len \<le> 55 then
                     Inl (InvalidInput ''invalid RLP: expected string length to be greater than 55'')
                   else
                     andThen (safeSlice input llength (len + llength)) (\<lambda>data.
                       Inr (Bytes data, drop (len + llength) input)))))
         else if firstByte \<le> 0xf7 then
           (let len = unat firstByte - 0xbf
            in andThen (safeSlice input 1 len) (\<lambda>innerRemainder.
               andThen (decode_list k innerRemainder) (\<lambda>decoded.
                 Inr (Items decoded, drop len input))))
         else
           (let llength = unat firstByte - 0xf6
            in andThen (safeSlice input 1 llength) (\<lambda>lenBytes.
               andThen (decodeLength lenBytes) (\<lambda>len.
                 if len < 56 then Inl (InvalidInput ''invalid RLP: encoded list too short'')
                 else if llength + len > length input then
                   Inl (InvalidInput ''invalid RLP: total length is larger than the data'')
                 else
                   andThen (safeSlice input llength (llength + len)) (\<lambda>innerRemainder.
                   andThen (decode_list k innerRemainder) (\<lambda>decoded.
                     Inr (Items decoded, drop (llength + len) input)))))))"
| "decode_list 0 innerRemainder = Inl (InvalidInput ''invalid RLP: nesting too deep'')"
| "decode_list (Suc k) innerRemainder =
    (if length innerRemainder = 0 then Inr []
     else andThen (decode_item k innerRemainder) (\<lambda>(d, rest).
          andThen (decode_list k rest) (\<lambda>ds. Inr (d # ds))))"

definition RLP_decode :: "bytes \<Rightarrow> error + rlp" where
  "RLP_decode input =
    (if length input = 0 then Inr (Bytes [])
     else andThen (decode_item (2 * length input + 1) input) (\<lambda>(d, remainder).
            if length remainder \<noteq> 0 then Inl (InvalidInput ''invalid RLP: remainder must be zero'')
            else Inr d))"

section \<open>Keccak-256\<close>

text \<open>
  Modelled from the spec: \<open>keccak_256\<close> is imported from the package
  \<open>@noble/hashes\<close>, which is not among the sources. It is the Keccak-256 hash
  function with the original Keccak padding and 256 bits of output, written
  here after the Keccak reference: the sponge over Keccak-f[1600] with rate 136
  bytes, first padding byte \<open>0x01\<close>, last padding byte \<open>0x80\<close>, and the first
  32 bytes of the state as output. A lane is a list of 64 bits, least
  significant first; the state is the list of 25 lanes, lane \<open>(x, y)\<close> at index
  \<open>x + 5 * y\<close>.
\<close>

type_synonym lane = "bool list"

fun xor64 :: "lane \<Rightarrow> lane \<Rightarrow> lane" where
  "xor64 (x # xs) (y # ys) = (x \<noteq> y) # xor64 xs ys"
| "xor64 _ _ = []"

text \<open>\<open>chi64 a b c\<close> is \<open>a XOR (NOT b AND c)\<close>, bit by bit.\<close>

fun chi64 :: "lane \<Rightarrow> lane \<Rightarrow> lane \<Rightarrow> lane" where
  "chi64 (x # xs) (y # ys) (z # zs) = (x \<noteq> (\<not> y \<and> z)) # chi64 xs ys zs"
| "chi64 _ _ _ = []"

text \<open>Rotation of a lane by \<open>n\<close> bits towards the most significant end.\<close>

definition rotl64 :: "lane \<Rightarrow> nat \<Rightarrow> lane" where
  "rotl64 w n = drop (64 - n) w @ take (64 - n) w"

text \<open>The \<open>k\<close> low bits of a number, least significant first.\<close>

fun bits_of :: "nat \<Rightarrow> nat \<Rightarrow> bool list" where
  "bits_of 0 n = []"
| "bits_of (Suc k) n = odd n # bits_of k (n div 2)"

definition lane_of_nat :: "nat \<Rightarrow> lane" where
  "lane_of_nat n = bits_of 64 n"

definition rotc :: "nat list" where
  "rotc = [ 0,  1, 62, 28, 27,
           36, 44,  6, 55, 20,
            3, 10, 43, 25, 39,
           41, 45, 15, 21,  8,
           18,  2, 61, 56, 14]"

definition RC :: "lane list" where
  "RC = map lane_of_nat
    [0x0000000000000001, 0x0000000000008082, 0x800000000000808A, 0x8000000080008000,
     0x000000000000808B, 0x0000000080000001, 0x8000000080008081, 0x8000000000008009,
     0x000000000000008A, 0x0000000000000088, 0x0000000080008009, 0x000000008000000A,
     0x000000008000808B, 0x800000000000008B, 0x8000000000008089, 0x8000000000008003,
     0x8000000000008002, 0x8000000000000080, 0x000000000000800A, 0x800000008000000A,
     0x8000000080008081, 0x8000000000008080, 0x0000000080000001, 0x8000000080008008]"

definition theta_c :: "lane list \<Rightarrow> lane list" where
  "theta_c a = map (\<lambda>x. xor64 (a ! x) (xor64 (a ! (x + 5)) (xor64 (a ! (x + 10))
                         (xor64 (a ! (x + 15)) (a ! (x + 20)))))) [0..<5]"

definition theta_d :: "lane list \<Rightarrow> lane list" where
  "theta_d c = map (\<lambda>x. xor64 (c ! ((x + 4) mod 5)) (rotl64 (c ! ((x + 1) mod 5)) 1)) [0..<5]"

definition theta_x :: "lane list \<Rightarrow> lane list \<Rightarrow> lane list" where
  "theta_x d a = map (\<lambda>i. xor64 (a ! i) (d ! (i mod 5))) [0..<25]"

definition theta :: "lane list \<Rightarrow> lane list" where
  "theta a = theta_x (theta_d (theta_c a)) a"

text \<open>
  \<open>rho\<close> and \<open>pi\<close> together: the lane at \<open>(x, y)\<close>, rotated by its offset, moves to
  \<open>(y, 2 * x + 3 * y)\<close>; read from the target \<open>j = X + 5 * Y\<close>, the source is
  \<open>x = (X + 3 * Y) mod 5\<close>, \<open>y = X\<close>.
\<close>

definition rho_pi :: "lane list \<Rightarrow> lane list" where
  "rho_pi a = map (\<lambda>j. let s = (j mod 5 + 3 * (j div 5)) mod 5 + 5 * (j mod 5)
                        in rotl64 (a ! s) (rotc ! s)) [0..<25]"

definition chi :: "lane list \<Rightarrow> lane list" where
  "chi b = map (\<lambda>j. chi64 (b ! j) (b ! ((j + 1) mod 5 + 5 * (j div 5)))
                                   (b ! ((j + 2) mod 5 + 5 * (j div 5)))) [0..<25]"

definition iota :: "lane \<Rightarrow> lane list \<Rightarrow> lane list" where
  "iota rc a = a[0 := xor64 (a ! 0) rc]"

definition round :: "lane list \<Rightarrow> lane \<Rightarrow> lane list" where
  "round a rc = iota rc (chi (rho_pi (theta a)))"

definition keccak_f :: "lane list \<Rightarrow> lane list" where
  "keccak_f a = foldl round a RC"

definition pad :: "bytes \<Rightarrow> bytes" where
  "pad m = (let q = 136 - length m mod 136
            in if q = 1 then m @ [0x81] else m @ [0x01] @ replicate (q - 2) 0 @ [0x80])"

fun blocks :: "bytes \<Rightarrow> bytes list" where
  "blocks m = (if length m < 136 then [] else take 136 m # blocks (drop 136 m))"

declare blocks.simps [simp del]

definition byte_bits :: "byte \<Rightarrow> bool list" where
  "byte_bits b = bits_of 8 (unat b)"

fun bytes_lanes :: "bytes \<Rightarrow> lane list" where
  "bytes_lanes (b0 # b1 # b2 # b3 # b4 # b5 # b6 # b7 # bs) =
     (byte_bits b0 @ byte_bits b1 @ byte_bits b2 @ byte_bits b3 @
      byte_bits b4 @ byte_bits b5 @ byte_bits b6 @ byte_bits b7) # bytes_lanes bs"
| "bytes_lanes _ = []"

text \<open>A block is XORed into the first lanes of the state; the other lanes stay.\<close>

fun xor_lanes :: "lane list \<Rightarrow> lane list \<Rightarrow> lane list" where
  "xor_lanes (s # ss) (l # ls) = xor64 s l # xor_lanes ss ls"
| "xor_lanes ss [] = ss"
| "xor_lanes [] ls = []"

definition absorb :: "lane list \<Rightarrow> bytes \<Rightarrow> lane list" where
  "absorb s block = keccak_f (xor_lanes s (bytes_lanes block))"

definition zero_state :: "lane list" where
  "zero_state = replicate 25 (lane_of_nat 0)"

definition bits_byte :: "bool list \<Rightarrow> byte" where
  "bits_byte bs = of_nat (foldr (\<lambda>b n. of_bool b + 2 * n) bs 0)"

definition squeeze :: "lane list \<Rightarrow> bytes" where
  "squeeze s = map (\<lambda>i. bits_byte (take 8 (drop (8 * (i mod 8)) (s ! (i div 8))))) [0..<32]"

definition keccak_256 :: "bytes \<Rightarrow> bytes" where
  "keccak_256 m = squeeze (foldl absorb zero_state (blocks (pad m)))"

section \<open>The Account class (account.ts)\<close>

subsection \<open>Presence indicators\<close>

text \<open>
  \<open>handleNullIndicator(values)\<close>: \<open>values[0] === undefined\<close> holds exactly when
  the sub-list is empty. The template literals render the indicator and the
  length in decimal.
\<close>

definition handleNullIndicator :: "rlp list \<Rightarrow> error + rlp option" where
  "handleNullIndicator values =
    (case values of
       [] \<Rightarrow> Inr None
     | v0 # _ \<Rightarrow>
        andThen (asUint8Array v0) (\<lambda>b0.
          let nullIndicator = bytesToInt b0
          in if nullIndicator = 0 then Inr None
             else if nullIndicator > 1 then
               Inl (InvalidInput (''Invalid isNullIndicator='' @ toString nullIndicator))
             else if length values < 2 then
               Inl (InvalidInput (''Invalid values length='' @ toString (int (length values))))
             else Inr (Some (values ! 1))))"

subsection \<open>Accessors\<close>

text \<open>
  Each getter returns the backing value, or throws
  \<open>Error(`nonce=${this._nonce} not loaded`)\<close> when it is \<open>null\<close>.
\<close>

definition get_version :: "Account \<Rightarrow> error + int" where
  "get_version this =
    (case p_version this of Some x \<Rightarrow> Inr x | None \<Rightarrow> Inl (NotLoaded ''version=null not loaded''))"

definition get_nonce :: "Account \<Rightarrow> error + int" where
  "get_nonce this =
    (case p_nonce this of Some x \<Rightarrow> Inr x | None \<Rightarrow> Inl (NotLoaded ''nonce=null not loaded''))"

definition get_balance :: "Account \<Rightarrow> error + int" where
  "get_balance this =
    (case p_balance this of Some x \<Rightarrow> Inr x | None \<Rightarrow> Inl (NotLoaded ''balance=null not loaded''))"

definition get_storageRoot :: "Account \<Rightarrow> error + bytes" where
  "get_storageRoot this =
    (case p_storageRoot this of Some x \<Rightarrow> Inr x
     | None \<Rightarrow> Inl (NotLoaded ''storageRoot=null not loaded''))"

definition get_codeHash :: "Account \<Rightarrow> error + bytes" where
  "get_codeHash this =
    (case p_codeHash this of Some x \<Rightarrow> Inr x | None \<Rightarrow> Inl (NotLoaded ''codeHash=null not loaded''))"

definition get_codeSize :: "Account \<Rightarrow> error + int" where
  "get_codeSize this =
    (case p_codeSize this of Some x \<Rightarrow> Inr x | None \<Rightarrow> Inl (NotLoaded ''codeSize=null not loaded''))"

subsection \<open>isContract, validation and the constructor\<close>

definition isContract :: "Account \<Rightarrow> error + bool" where
  "isContract this =
    (if p_codeHash this = None \<and> p_codeSize this = None then
       Inl (MissingData ''Insufficient data as codeHash=null and codeSize=null'')
     else
       Inr ((case p_codeHash this of None \<Rightarrow> False | Some h \<Rightarrow> \<not> equalsBytes h KECCAK256_NULL)
            \<or> (case p_codeSize this of None \<Rightarrow> False | Some n \<Rightarrow> n \<noteq> 0)))"

text \<open>\<open>_validate()\<close>: five checks in the source's order, the first failing one throws.\<close>

definition validate :: "Account \<Rightarrow> error + unit" where
  "validate this =
    (if (case p_nonce this of None \<Rightarrow> False | Some n \<Rightarrow> n < 0) then
       Inl (InvalidInput ''nonce must be greater than zero'')
     else if (case p_balance this of None \<Rightarrow> False | Some n \<Rightarrow> n < 0) then
       Inl (InvalidInput ''balance must be greater than zero'')
     else if (case p_storageRoot this of None \<Rightarrow> False | Some r \<Rightarrow> length r \<noteq> 32) then
       Inl (InvalidInput ''storageRoot must have a length of 32'')
     else if (case p_codeHash this of None \<Rightarrow> False | Some h \<Rightarrow> length h \<noteq> 32) then
       Inl (InvalidInput ''codeHash must have a length of 32'')
     else if (case p_codeSize this of None \<Rightarrow> False | Some n \<Rightarrow> n < 0) then
       Inl (InvalidInput ''codeSize must be greater than zero'')
     else Inr ())"

text \<open>
  \<open>new Account(nonce, balance, storageRoot, codeHash, codeSize, version)\<close>. The
  four core fields are assigned first; \<open>isContract()\<close> is then evaluated while
  \<open>_codeSize\<close> and \<open>_version\<close> still hold their initial \<open>null\<close>; the code size
  of a non-contract is inferred to 0; \<open>_validate()\<close> runs last.
\<close>

definition newAccount ::
  "int arg \<Rightarrow> int arg \<Rightarrow> bytes arg \<Rightarrow> bytes arg \<Rightarrow> int arg \<Rightarrow> int arg \<Rightarrow> error + Account" where
  "newAccount nonce balance storageRoot codeHash codeSize version =
    (let this0 = \<lparr>p_nonce = withDefault 0 nonce,
                  p_balance = withDefault 0 balance,
                  p_storageRoot = withDefault KECCAK256_RLP storageRoot,
                  p_codeHash = withDefault KECCAK256_NULL codeHash,
                  p_codeSize = None,
                  p_version = None\<rparr>;
         codeSize0 = withDefault 0 codeSize;
         finish = (\<lambda>cs.
           let this1 = this0\<lparr>p_codeSize := cs, p_version := withDefault 0 version\<rparr>
           in case validate this1 of Inl e \<Rightarrow> Inl e | Inr _ \<Rightarrow> Inr this1)
     in if codeSize0 = None \<and> p_codeHash this0 \<noteq> None then
          (case isContract this0 of
             Inl e \<Rightarrow> Inl e
           | Inr c \<Rightarrow> finish (if \<not> c then Some 0 else codeSize0))
        else finish codeSize0)"

subsection \<open>isEmpty\<close>

text \<open>
  JavaScript's \<open>||\<close> and \<open>&&\<close> evaluate the right operand only when the left
  one does not decide; a throwing operand that is evaluated ends the call.
\<close>

definition orElse :: "error + bool \<Rightarrow> error + bool \<Rightarrow> error + bool" where
  "orElse a b = (case a of Inl e \<Rightarrow> Inl e | Inr x \<Rightarrow> if x then Inr True else b)"

definition andAlso :: "error + bool \<Rightarrow> error + bool \<Rightarrow> error + bool" where
  "andAlso a b = (case a of Inl e \<Rightarrow> Inl e | Inr x \<Rightarrow> if x then b else Inr False)"

definition test :: "('a \<Rightarrow> bool) \<Rightarrow> error + 'a \<Rightarrow> error + bool" where
  "test p r = (case r of Inl e \<Rightarrow> Inl e | Inr x \<Rightarrow> Inr (p x))"

definition isEmpty :: "Account \<Rightarrow> error + bool" where
  "isEmpty this =
    (case orElse (andAlso (Inr (p_balance this \<noteq> None)) (test (\<lambda>b. b \<noteq> 0) (get_balance this)))
         (orElse (andAlso (Inr (p_nonce this = None)) (test (\<lambda>n. n \<noteq> 0) (get_nonce this)))
                 (andAlso (Inr (p_codeHash this \<noteq> None))
                          (test (\<lambda>h. \<not> equalsBytes h KECCAK256_NULL) (get_codeHash this)))) of
       Inl e \<Rightarrow> Inl e
     | Inr True \<Rightarrow> Inr False
     | Inr False \<Rightarrow>
         andAlso (test (\<lambda>b. b = 0) (get_balance this))
           (andAlso (test (\<lambda>n. n = 0) (get_nonce this))
                    (test (\<lambda>h. equalsBytes h KECCAK256_NULL) (get_codeHash this))))"

subsection \<open>The partial encoding\<close>

text \<open>
  \<open>serializeWithPartialInfo()\<close>: one sub-list per field, \<open>[zeroEncoded]\<close> for
  \<open>null\<close> and \<open>[oneEncoded, value]\<close> otherwise, pushed in the order nonce,
  balance, storageRoot, codeHash, codeSize, version.
\<close>

definition partialField ::
  "bytes \<Rightarrow> bytes \<Rightarrow> 'a option \<Rightarrow> ('a \<Rightarrow> error + bytes) \<Rightarrow> error + rlp" where
  "partialField zeroEncoded oneEncoded field enc =
    (case field of
       None \<Rightarrow> Inr (Items [Bytes zeroEncoded])
     | Some x \<Rightarrow> andThen (enc x) (\<lambda>b. Inr (Items [Bytes oneEncoded, Bytes b])))"

definition serializeWithPartialInfo :: "Account \<Rightarrow> error + bytes" where
  "serializeWithPartialInfo this =
    andThen (intToUnpaddedBytes 0) (\<lambda>zeroEncoded.
    andThen (intToUnpaddedBytes 1) (\<lambda>oneEncoded.
    andThen (partialField zeroEncoded oneEncoded (p_nonce this) bigIntToUnpaddedBytes) (\<lambda>f1.
    andThen (partialField zeroEncoded oneEncoded (p_balance this) bigIntToUnpaddedBytes) (\<lambda>f2.
    andThen (partialField zeroEncoded oneEncoded (p_storageRoot this) Inr) (\<lambda>f3.
    andThen (partialField zeroEncoded oneEncoded (p_codeHash this) Inr) (\<lambda>f4.
    andThen (partialField zeroEncoded oneEncoded (p_codeSize this) intToUnpaddedBytes) (\<lambda>f5.
    andThen (partialField zeroEncoded oneEncoded (p_version this) intToUnpaddedBytes) (\<lambda>f6.
      Inr (RLP_encode (Items [f1, f2, f3, f4, f5, f6]))))))))))"

subsection \<open>Factories\<close>

text \<open>\<open>PartialAccountData\<close>: six optional fields, each of which may also be \<open>null\<close>.\<close>

record PartialAccountData =
  d_nonce :: "BytesLike arg"
  d_balance :: "BytesLike arg"
  d_storageRoot :: "BytesLike arg"
  d_codeHash :: "BytesLike arg"
  d_codeSize :: "BytesLike arg"
  d_version :: "BytesLike arg"

text \<open>
  \<open>x !== undefined && x !== null ? conv(toBytes(x)) : x\<close>, for the three
  conversions that \<open>createPartialAccount\<close> uses.
\<close>

definition coerce :: "(bytes \<Rightarrow> 'a) \<Rightarrow> BytesLike arg \<Rightarrow> error + 'a arg" where
  "coerce conv x =
    (case x of
       Undefined \<Rightarrow> Inr Undefined
     | Null \<Rightarrow> Inr Null
     | Value y \<Rightarrow> andThen (toBytes y) (\<lambda>b. Inr (Value (conv b))))"

definition createPartialAccount :: "PartialAccountData \<Rightarrow> error + Account" where
  "createPartialAccount partialAccountData =
    (if d_nonce partialAccountData = Null \<and> d_balance partialAccountData = Null
        \<and> d_storageRoot partialAccountData = Null \<and> d_codeHash partialAccountData = Null
        \<and> d_codeSize partialAccountData = Null \<and> d_version partialAccountData = Null then
       Inl (UnsupportedOperation ''All partial fields null'')
     else
       andThen (coerce bytesToBigInt (d_nonce partialAccountData)) (\<lambda>nonce.
       andThen (coerce bytesToBigInt (d_balance partialAccountData)) (\<lambda>balance.
       andThen (coerce (\<lambda>b. b) (d_storageRoot partialAccountData)) (\<lambda>storageRoot.
       andThen (coerce (\<lambda>b. b) (d_codeHash partialAccountData)) (\<lambda>codeHash.
       andThen (coerce bytesToInt (d_codeSize partialAccountData)) (\<lambda>codeSize.
       andThen (coerce bytesToInt (d_version partialAccountData)) (\<lambda>version.
         newAccount nonce balance storageRoot codeHash codeSize version)))))))"

text \<open>
  \<open>createPartialAccountFromRLP(serialized)\<close>. \<open>values.map(handleNullIndicator)\<close>
  decodes every item in turn, and the first failure ends the call. The
  destructuring takes the first six results; a position beyond the end of the
  array is \<open>undefined\<close>. Modelled from the spec: the conversions read a missing
  value as 0. A present value goes through the cast \<open>as Uint8Array\<close>; the
  integers are converted first, as in the source.
\<close>

fun mapResult :: "('a \<Rightarrow> error + 'b) \<Rightarrow> 'a list \<Rightarrow> error + 'b list" where
  "mapResult f [] = Inr []"
| "mapResult f (x # xs) = andThen (f x) (\<lambda>y. andThen (mapResult f xs) (\<lambda>ys. Inr (y # ys)))"

definition isArray :: "rlp \<Rightarrow> bool" where
  "isArray x = (case x of Items _ \<Rightarrow> True | Bytes _ \<Rightarrow> False)"

definition itemsOf :: "rlp \<Rightarrow> rlp list" where
  "itemsOf x = (case x of Items xs \<Rightarrow> xs | Bytes _ \<Rightarrow> [])"

definition element :: "'a option list \<Rightarrow> nat \<Rightarrow> 'a arg" where
  "element xs i =
    (if i < length xs then (case xs ! i of None \<Rightarrow> Null | Some x \<Rightarrow> Value x) else Undefined)"

definition rawInteger ::
  "(bytes \<Rightarrow> int) \<Rightarrow> (int \<Rightarrow> BytesLike) \<Rightarrow> rlp arg \<Rightarrow> error + BytesLike arg" where
  "rawInteger conv wrap raw =
    (case raw of
       Null \<Rightarrow> Inr Null
     | Undefined \<Rightarrow> Inr (Value (wrap 0))
     | Value x \<Rightarrow> andThen (asUint8Array x) (\<lambda>b. Inr (Value (wrap (conv b)))))"

definition rawBytes :: "rlp arg \<Rightarrow> error + BytesLike arg" where
  "rawBytes raw =
    (case raw of
       Null \<Rightarrow> Inr Null
     | Undefined \<Rightarrow> Inr Undefined
     | Value x \<Rightarrow> andThen (asUint8Array x) (\<lambda>b. Inr (Value (Uint8Array b))))"

definition createPartialAccountFromRLP :: "bytes \<Rightarrow> error + Account" where
  "createPartialAccountFromRLP serialized =
    andThen (RLP_decode serialized) (\<lambda>values.
      if \<not> isArray values then
        Inl (InvalidInput ''Invalid serialized account input. Must be array'')
      else if \<not> list_all isArray (itemsOf values) then
        Inl (InvalidInput ''Invalid partial encoding. Each item must be an array'')
      else
        andThen (mapResult (\<lambda>x. handleNullIndicator (itemsOf x)) (itemsOf values)) (\<lambda>raws.
        andThen (rawInteger bytesToBigInt BigInt (element raws 0)) (\<lambda>nonce.
        andThen (rawInteger bytesToBigInt BigInt (element raws 1)) (\<lambda>balance.
        andThen (rawInteger bytesToInt Number (element raws 4)) (\<lambda>codeSize.
        andThen (rawInteger bytesToInt Number (element raws 5)) (\<lambda>version.
        andThen (rawBytes (element raws 2)) (\<lambda>storageRoot.
        andThen (rawBytes (element raws 3)) (\<lambda>codeHash.
          createPartialAccount
            \<lparr>d_nonce = nonce, d_balance = balance, d_storageRoot = storageRoot,
             d_codeHash = codeHash, d_codeSize = codeSize, d_version = version\<rparr>))))))))"

section \<open>Addresses (account.ts)\<close>

text \<open>
  \<open>toChecksumAddress(hexAddress, eip1191ChainId?)\<close>. The loop runs over the
  positions of \<open>address\<close> and appends one character each time.
\<close>

definition toChecksumAddress :: "string \<Rightarrow> BytesLike option \<Rightarrow> error + string" where
  "toChecksumAddress hexAddress eip1191ChainId =
    andThen (assertIsHexString hexAddress) (\<lambda>_.
      let address = toLowerCase (stripHexPrefix hexAddress)
      in andThen
           (case eip1191ChainId of
              None \<Rightarrow> Inr ''''
            | Some c \<Rightarrow> andThen (toBytes c) (\<lambda>b. Inr (toString (bytesToBigInt b) @ ''0x'')))
           (\<lambda>prefix.
              let bytes = utf8ToBytes (prefix @ address);
                  hash = drop 2 (bytesToHex (keccak_256 bytes));
                  ret = foldl (\<lambda>ret i.
                          if atLeast8 (parseInt16 (charAt hash i))
                          then ret @ [toUpperCase_char (address ! i)]
                          else ret @ [address ! i]) '''' [0..<length address]
              in Inr (''0x'' @ ret)))"

text \<open>
  \<open>generateAddress(from, nonce)\<close> and \<open>generateAddress2(from, salt, initCode)\<close>.
  The arguments are byte strings, so the \<open>assertIsBytes\<close> checks pass.
\<close>

definition generateAddress :: "bytes \<Rightarrow> bytes \<Rightarrow> bytes" where
  "generateAddress from nonce =
    (if bytesToBigInt nonce = 0 then
       subarray_last 20 (keccak_256 (RLP_encode (Items [Bytes from, Bytes []])))
     else subarray_last 20 (keccak_256 (RLP_encode (Items [Bytes from, Bytes nonce]))))"

definition generateAddress2 :: "bytes \<Rightarrow> bytes \<Rightarrow> bytes \<Rightarrow> error + bytes" where
  "generateAddress2 from salt initCode =
    (if length from \<noteq> 20 then Inl (InvalidInput ''Expected from to be of length 20'')
     else if length salt \<noteq> 32 then Inl (InvalidInput ''Expected salt to be of length 32'')
     else
       (let address = keccak_256 (concatBytes [hexToBytes ''0xff'', from, salt, keccak_256 initCode])
        in Inr (subarray_last 20 address)))"

section \<open>The slim account body (account.ts)\<close>

definition accountBodyFromSlim :: "AccountBodyBytes \<Rightarrow> AccountBodyBytes" where
  "accountBodyFromSlim body =
    (case body of (nonce, balance, storageRoot, codeHash) \<Rightarrow>
       (nonce, balance,
        if length storageRoot = 0 then KECCAK256_RLP else storageRoot,
        if length codeHash = 0 then KECCAK256_NULL else codeHash))"

definition emptyUint8Arr :: bytes where
  "emptyUint8Arr = []"

definition accountBodyToSlim :: "AccountBodyBytes \<Rightarrow> AccountBodyBytes" where
  "accountBodyToSlim body =
    (case body of (nonce, balance, storageRoot, codeHash) \<Rightarrow>
       (nonce, balance,
        if equalsBytes storageRoot KECCAK256_RLP then emptyUint8Arr else storageRoot,
        if equalsBytes codeHash KECCAK256_NULL then emptyUint8Arr else codeHash))"

section \<open>Typed transaction envelope (eip2718.ts)\<close>

text \<open>
  The part of \<open>EIP2718CompatibleTx\<close> that the envelope helpers read: the type
  identifier and the optional y-parity \<open>v\<close> (\<open>undefined\<close> is \<open>None\<close>). The
  record is extensible, so a transaction may carry any further fields.
\<close>

record EIP2718CompatibleTx =
  txType :: nat
  v :: "int option"

text \<open>
  \<open>validateYParity(tx)\<close>. \<open>errorMsg\<close> is imported from \<open>legacy.ts\<close>, which is not
  among the sources: it is a parameter, applied to the transaction and the
  message as the source applies it. The function assigns nothing; the model
  returns the transaction next to the outcome, so that this can be stated.
\<close>

definition validateYParity ::
  "('a EIP2718CompatibleTx_scheme \<Rightarrow> string \<Rightarrow> string) \<Rightarrow> 'a EIP2718CompatibleTx_scheme
     \<Rightarrow> (error + unit) \<times> 'a EIP2718CompatibleTx_scheme" where
  "validateYParity errorMsg tx =
    (if v tx \<noteq> None \<and> v tx \<noteq> Some 0 \<and> v tx \<noteq> Some 1 then
       (Inl (InvalidInput
          (errorMsg tx ''The y-parity of the transaction should either be 0 or 1'')), tx)
     else (Inr (), tx))"

section \<open>Facts about the constants and the helpers\<close>

lemma length_KECCAK256_RLP: "length KECCAK256_RLP = 32"
  by (simp add: KECCAK256_RLP_def)

lemma length_KECCAK256_NULL: "length KECCAK256_NULL = 32"
  by (simp add: KECCAK256_NULL_def)

lemma KECCAK256_RLP_neq_NULL: "KECCAK256_RLP \<noteq> KECCAK256_NULL"
  by (simp add: KECCAK256_NULL_def KECCAK256_RLP_def)

lemma toString_1: "toString 1 = ''1''"
  by (simp add: toString_def toString_nat.simps decimalDigit_def)

section \<open>Evaluating Keccak-256\<close>

lemma upt_5: "[0..<5] = [0, 1, 2, 3, 4]"
  by code_simp

lemma upt_25:
  "[0..<25] = [0, 1, 2, 3, 4, 5, 6, 7, 8, 9, 10, 11, 12, 13, 14, 15, 16, 17, 18, 19, 20, 21, 22, 23, 24]"
  by code_simp

lemma upt_32:
  "[0..<32] = [0, 1, 2, 3, 4, 5, 6, 7, 8, 9, 10, 11, 12, 13, 14, 15, 16, 17, 18, 19, 20, 21, 22, 23,
               24, 25, 26, 27, 28, 29, 30, 31]"
  by code_simp

lemma len8: "LENGTH(8) = 8"
  by simp

text \<open>The steps of a round on an explicit state.\<close>

lemma theta_c_unroll:
  "theta_c [a0, a1, a2, a3, a4,
            a5, a6, a7, a8, a9,
            a10, a11, a12, a13, a14,
            a15, a16, a17, a18, a19,
            a20, a21, a22, a23, a24] =
    [xor64 a0 (xor64 a5 (xor64 a10 (xor64 a15 a20))),
     xor64 a1 (xor64 a6 (xor64 a11 (xor64 a16 a21))),
     xor64 a2 (xor64 a7 (xor64 a12 (xor64 a17 a22))),
     xor64 a3 (xor64 a8 (xor64 a13 (xor64 a18 a23))),
     xor64 a4 (xor64 a9 (xor64 a14 (xor64 a19 a24)))]"
  by (simp add: theta_c_def upt_5)

lemma theta_d_unroll:
  "theta_d [c0, c1, c2, c3, c4] =
    [xor64 c4 (drop 63 c1 @ take 63 c1),
     xor64 c0 (drop 63 c2 @ take 63 c2),
     xor64 c1 (drop 63 c3 @ take 63 c3),
     xor64 c2 (drop 63 c4 @ take 63 c4),
     xor64 c3 (drop 63 c0 @ take 63 c0)]"
  by (simp add: theta_d_def upt_5 rotl64_def)

lemma theta_x_unroll:
  "theta_x [d0, d1, d2, d3, d4]
     [a0, a1, a2, a3, a4,
      a5, a6, a7, a8, a9,
      a10, a11, a12, a13, a14,
      a15, a16, a17, a18, a19,
      a20, a21, a22, a23, a24] =
    [xor64 a0 d0, xor64 a1 d1, xor64 a2 d2, xor64 a3 d3, xor64 a4 d4,
     xor64 a5 d0, xor64 a6 d1, xor64 a7 d2, xor64 a8 d3, xor64 a9 d4,
     xor64 a10 d0, xor64 a11 d1, xor64 a12 d2, xor64 a13 d3, xor64 a14 d4,
     xor64 a15 d0, xor64 a16 d1, xor64 a17 d2, xor64 a18 d3, xor64 a19 d4,
     xor64 a20 d0, xor64 a21 d1, xor64 a22 d2, xor64 a23 d3, xor64 a24 d4]"
  by (simp add: theta_x_def upt_25)

lemma rho_pi_unroll:
  "rho_pi [a0, a1, a2, a3, a4,
           a5, a6, a7, a8, a9,
           a10, a11, a12, a13, a14,
           a15, a16, a17, a18, a19,
           a20, a21, a22, a23, a24] =
    [drop 64 a0 @ take 64 a0, drop 20 a6 @ take 20 a6, drop 21 a12 @ take 21 a12,
     drop 43 a18 @ take 43 a18, drop 50 a24 @ take 50 a24, drop 36 a3 @ take 36 a3,
     drop 44 a9 @ take 44 a9, drop 61 a10 @ take 61 a10, drop 19 a16 @ take 19 a16,
     drop 3 a22 @ take 3 a22, drop 63 a1 @ take 63 a1, drop 58 a7 @ take 58 a7,
     drop 39 a13 @ take 39 a13, drop 56 a19 @ take 56 a19, drop 46 a20 @ take 46 a20,
     drop 37 a4 @ take 37 a4, drop 28 a5 @ take 28 a5, drop 54 a11 @ take 54 a11,
     drop 49 a17 @ take 49 a17, drop 8 a23 @ take 8 a23, drop 2 a2 @ take 2 a2,
     drop 9 a8 @ take 9 a8, drop 25 a14 @ take 25 a14, drop 23 a15 @ take 23 a15,
     drop 62 a21 @ take 62 a21]"
  by (simp add: rho_pi_def upt_25 rotc_def rotl64_def)

lemma chi_unroll:
  "chi [b0, b1, b2, b3, b4,
        b5, b6, b7, b8, b9,
        b10, b11, b12, b13, b14,
        b15, b16, b17, b18, b19,
        b20, b21, b22, b23, b24] =
    [chi64 b0 b1 b2, chi64 b1 b2 b3, chi64 b2 b3 b4,
     chi64 b3 b4 b0, chi64 b4 b0 b1, chi64 b5 b6 b7,
     chi64 b6 b7 b8, chi64 b7 b8 b9, chi64 b8 b9 b5,
     chi64 b9 b5 b6, chi64 b10 b11 b12, chi64 b11 b12 b13,
     chi64 b12 b13 b14, chi64 b13 b14 b10, chi64 b14 b10 b11,
     chi64 b15 b16 b17, chi64 b16 b17 b18, chi64 b17 b18 b19,
     chi64 b18 b19 b15, chi64 b19 b15 b16, chi64 b20 b21 b22,
     chi64 b21 b22 b23, chi64 b22 b23 b24, chi64 b23 b24 b20,
     chi64 b24 b20 b21]"
  by (simp add: chi_def upt_25)

lemma iota_unroll: "iota rc (a0 # as) = xor64 a0 rc # as"
  by (simp add: iota_def)

lemma bool_table:
  "(True \<noteq> True) = False" "(True \<noteq> False) = True"
  "(False \<noteq> True) = True" "(False \<noteq> False) = False"
  "(\<not> True) = False" "(\<not> False) = True"
  "(True \<and> x) = x" "(False \<and> x) = False"
  by simp_all

lemma drop_take_step:
  "drop (numeral k) (x # xs) = drop (pred_numeral k) xs"
  "take (numeral k) (x # xs) = x # take (pred_numeral k) xs"
  "drop 1 (x # xs) = xs"
  "take 1 (x # xs) = [x]"
  "drop n [] = []"
  "take n [] = []"
  "drop 0 ys = ys"
  "take 0 ys = []"
  by (simp_all add: numeral_eq_Suc)

lemma replicate_step:
  "replicate (numeral k) x = x # replicate (pred_numeral k) x"
  "replicate 1 x = [x]"
  "replicate 0 x = []"
  by (simp_all add: numeral_eq_Suc)

lemma bits_of_step: "bits_of (numeral j) n = odd n # bits_of (pred_numeral j) (n div 2)"
proof -
  have "numeral j = Suc (pred_numeral j)"
    by (rule numeral_eq_Suc)
  then show ?thesis
    by (simp only: bits_of.simps)
qed

lemma bits_of_numeral:
  "bits_of (numeral j) (numeral (Num.Bit0 k)) = False # bits_of (pred_numeral j) (numeral k)"
  "bits_of (numeral j) (numeral (Num.Bit1 k)) = True # bits_of (pred_numeral j) (numeral k)"
  "bits_of (numeral j) 1 = True # bits_of (pred_numeral j) 0"
  "bits_of (numeral j) 0 = False # bits_of (pred_numeral j) 0"
  "bits_of 1 (numeral (Num.Bit0 k)) = [False]"
  "bits_of 1 (numeral (Num.Bit1 k)) = [True]"
  "bits_of 1 1 = [True]"
  "bits_of 1 0 = [False]"
  "bits_of 0 n = []"
  by (simp_all add: bits_of_step)

lemma bits_of_mod: "bits_of k (n mod 2 ^ k) = bits_of k n"
proof (induction k arbitrary: n)
  case 0
  show ?case by simp
next
  case (Suc k)
  have "n mod (2 * 2 ^ k) mod 2 = n mod 2"
    by (rule mod_mod_cancel) simp
  then have "odd (n mod (2 * 2 ^ k)) = odd n"
    by (simp only: odd_iff_mod_2_eq_one)
  moreover have "n mod (2 * 2 ^ k) div 2 = (n div 2) mod 2 ^ k"
    by (simp add: mod_mult2_eq)
  ultimately show ?case
    using Suc.IH [of "n div 2"] by simp
qed

lemma byte_bits_numeral:
  "byte_bits (numeral k) = bits_of 8 (numeral k)"
  "byte_bits 1 = bits_of 8 1"
  "byte_bits 0 = bits_of 8 0"
proof -
  have "unat (numeral k :: byte) = numeral k mod 2 ^ 8"
    by (simp only: unat_numeral len8)
  then show "byte_bits (numeral k) = bits_of 8 (numeral k)"
    by (simp only: byte_bits_def bits_of_mod)
qed (simp_all add: byte_bits_def)

lemmas keccak_eval =
  absorb_def keccak_f_def round_def theta_def zero_state_def RC_def lane_of_nat_def
  theta_c_unroll theta_d_unroll theta_x_unroll rho_pi_unroll chi_unroll iota_unroll
  foldl_Cons foldl_Nil list.map xor64.simps chi64.simps xor_lanes.simps bytes_lanes.simps
  byte_bits_numeral bits_of_numeral bool_table drop_take_step replicate_step
  pred_numeral_simps BitM.simps numeral_One append_Cons append_Nil

section \<open>Evaluation and helper facts\<close>

lemma decode_fuel:
  "decode_item (numeral n) input = decode_item (Suc (pred_numeral n)) input"
  "decode_list (numeral n) input = decode_list (Suc (pred_numeral n)) input"
  by (simp_all add: numeral_eq_Suc)

text \<open>
  The counter of the decoder is large enough: an item of \<open>n > 0\<close> bytes needs at
  most \<open>2 * n\<close> steps of nesting and a list payload of \<open>n\<close> bytes at most
  \<open>2 * n + 1\<close>, since every item consumes at least one byte.
\<close>

lemma safeSlice_bound: "safeSlice input s e = Inr x \<Longrightarrow> length x \<le> length input - s"
  by (auto simp: safeSlice_def split: if_splits)

lemma safeSlice_not_fuel: "safeSlice input s e \<noteq> Inl nestingTooDeep"
  by (simp add: safeSlice_def nestingTooDeep_def)

lemma decodeLength_not_fuel: "decodeLength lenBytes \<noteq> Inl nestingTooDeep"
  by (simp add: decodeLength_def nestingTooDeep_def split: list.splits)

lemma andThen_eq_Inl:
  "(andThen m f = Inl e) = (m = Inl e \<or> (\<exists>x. m = Inr x \<and> f x = Inl e))"
  by (cases m) (simp_all add: andThen_def)

lemma decode_item_rest:
  "decode_item k input = Inr (d, rest) \<Longrightarrow> length rest < length input"
proof (cases k)
  case 0
  assume "decode_item k input = Inr (d, rest)"
  with 0 show ?thesis by simp
next
  case (Suc j)
  assume "decode_item k input = Inr (d, rest)"
  with Suc show ?thesis
    by (cases input)
       (auto simp: andThen_def Let_def word_le_nat_alt split: if_splits sum.splits)
qed

lemma decode_fuel_enough:
  "(0 < k \<and> 2 * length input \<le> k \<longrightarrow> decode_item k input \<noteq> Inl nestingTooDeep) \<and>
   (2 * length r + 1 \<le> k \<longrightarrow> decode_list k r \<noteq> Inl nestingTooDeep)"
proof (induction k arbitrary: input r)
  case 0
  show ?case by simp
next
  case (Suc k)
  have item: "decode_item (Suc k) input \<noteq> Inl nestingTooDeep"
    if "2 * length input \<le> Suc k"
  proof (cases input)
    case Nil
    then show ?thesis by (simp add: nestingTooDeep_def)
  next
    case (Cons b bs)
    have inner: "decode_list k x \<noteq> Inl nestingTooDeep"
      if "safeSlice input s e = Inr x" "1 \<le> s" for x s e
    proof -
      have "length x \<le> length input - s" using safeSlice_bound [OF that(1)] .
      with \<open>2 * length input \<le> Suc k\<close> Cons that(2) have "2 * length x + 1 \<le> k" by simp
      with Suc.IH show ?thesis by blast
    qed
    have pos: "1 \<le> unat b - 0xf6" if "\<not> b \<le> 0xf7"
      using that by (simp add: word_le_nat_alt)
    have e: "InvalidInput m \<noteq> nestingTooDeep"
      if "m \<noteq> ''invalid RLP: nesting too deep''" for m
      using that by (simp add: nestingTooDeep_def)
    show ?thesis
      using pos
      by (auto simp: Cons andThen_eq_Inl Let_def safeSlice_not_fuel decodeLength_not_fuel e
               dest: inner [unfolded Cons])
  qed
  have list: "decode_list (Suc k) r \<noteq> Inl nestingTooDeep"
    if "2 * length r + 1 \<le> Suc k"
  proof (cases r)
    case Nil
    then show ?thesis by simp
  next
    case (Cons b bs)
    have a: "decode_item k r \<noteq> Inl nestingTooDeep"
      using Suc.IH [of r] that Cons by simp
    have rest: "decode_list k rest \<noteq> Inl nestingTooDeep"
      if "decode_item k r = Inr (d, rest)" for d rest
    proof -
      have "length rest < length r" using decode_item_rest [OF that] .
      with \<open>2 * length r + 1 \<le> Suc k\<close> have "2 * length rest + 1 \<le> k" by simp
      with Suc.IH show ?thesis by blast
    qed
    show ?thesis
      using a rest by (auto simp: Cons andThen_eq_Inl)
  qed
  from item list show ?case by simp
qed

lemma RLP_decode_fuel: "RLP_decode input \<noteq> Inl nestingTooDeep"
  using decode_fuel_enough [of "2 * length input + 1" input input]
  by (auto simp: RLP_decode_def andThen_eq_Inl nestingTooDeep_def)

lemma natToBytes_eval:
  "natToBytes 0 = []"
  "natToBytes (numeral k) = natToBytes (numeral k div 256) @ [of_nat (numeral k mod 256)]"
  "natToBytes 1 = [1]"
  "natToBytes (Suc 0) = [1]"
  by (simp_all add: natToBytes.simps)

lemma bytesToBigInt_zeros: "bytesToBigInt (replicate k 0) = 0"
proof -
  have "foldl (\<lambda>acc b. acc * 256 + uint b) 0 (replicate k (0 :: byte)) = (0 :: int)"
    by (induction k) simp_all
  then show ?thesis
    by (simp add: bytesToBigInt_def)
qed

lemma length_keccak_256: "length (keccak_256 m) = 32"
  by (simp add: keccak_256_def squeeze_def)

lemma hexToBytes_ff: "hexToBytes ''0xff'' = [0xff]"
  by (simp add: hexToBytes_def hexValue_def hexDigitValue_def)

lemma toLowerCase_char_upper: "toLowerCase_char (toUpperCase_char c) = toLowerCase_char c"
  by (auto simp: toLowerCase_char_def toUpperCase_char_def Let_def)

lemma toLowerCase_char_idem: "toLowerCase_char (toLowerCase_char c) = toLowerCase_char c"
  by (auto simp: toLowerCase_char_def Let_def)

lemma isHexDigit_lower: "isHexDigit c \<Longrightarrow> isHexDigit (toLowerCase_char c)"
  by (auto simp: isHexDigit_def hexDigitValue_def toLowerCase_char_def Let_def split: if_splits)

lemma isHexDigit_upper: "isHexDigit c \<Longrightarrow> isHexDigit (toUpperCase_char c)"
  by (auto simp: isHexDigit_def hexDigitValue_def toUpperCase_char_def Let_def split: if_splits)

lemma checksum_loop:
  "foldl (\<lambda>ret i. if P i then ret @ [g i] else ret @ [h i]) acc [0..<n]
     = acc @ map (\<lambda>i. if P i then g i else h i) [0..<n]"
  by (induction n) simp_all

lemma length_bytesToHex: "length (bytesToHex bs) = 2 + 2 * length bs"
  by (induction bs) (simp_all add: bytesToHex_def)

lemma stripHexPrefix_hex: "isHexString s \<Longrightarrow> stripHexPrefix s = drop 2 s"
  by (simp add: isHexString_def stripHexPrefix_def isHexPrefixed_def)

lemma andThen_simps:
  "andThen (Inr x) f = f x"
  "andThen (Inl e) f = Inl e"
  by (simp_all add: andThen_def)

lemma length_toLowerCase: "length (toLowerCase s) = length s"
  by (simp add: toLowerCase_def)

lemma toChecksumAddress_unfold:
  "toChecksumAddress h c =
    (if \<not> isHexString h then
       Inl (InvalidInput (''This method only supports 0x-prefixed hex strings but input was: '' @ h))
     else
       andThen
         (case c of
            None \<Rightarrow> Inr []
          | Some c \<Rightarrow> andThen (toBytes c) (\<lambda>b. Inr (toString (bytesToBigInt b) @ ''0x'')))
         (\<lambda>prefix. Inr (''0x'' @
            map (\<lambda>i. if atLeast8 (parseInt16 (charAt
                          (drop 2 (bytesToHex (keccak_256
                             (utf8ToBytes (prefix @ toLowerCase (drop 2 h)))))) i))
                       then toUpperCase_char (toLowerCase (drop 2 h) ! i)
                       else toLowerCase (drop 2 h) ! i)
                [0..<length (toLowerCase (drop 2 h))])))"
proof (cases "isHexString h")
  case True
  then show ?thesis
    by (simp add: toChecksumAddress_def assertIsHexString_def andThen_simps Let_def checksum_loop
        stripHexPrefix_hex)
next
  case False
  then show ?thesis
    by (simp add: toChecksumAddress_def assertIsHexString_def andThen_simps)
qed

text \<open>Keccak-256 on the inputs of the published test vectors.\<close>

lemma keccak_256_empty:
  "keccak_256 [] =
    [0xc5, 0xd2, 0x46, 0x01, 0x86, 0xf7, 0x23, 0x3c, 0x92, 0x7e, 0x7d, 0xb2, 0xdc, 0xc7, 0x03, 0xc0,
     0xe5, 0x00, 0xb6, 0x53, 0xca, 0x82, 0x27, 0x3b, 0x7b, 0xfa, 0xd8, 0x04, 0x5d, 0x85, 0xa4, 0x70]"
  unfolding keccak_256_def
  apply (simp add: pad_def blocks.simps replicate_step)
  apply (simp only: keccak_eval)
  apply (simp add: squeeze_def upt_32 bits_byte_def)
  done

lemma keccak_256_rlp_empty:
  "keccak_256 [0x80] =
    [0x56, 0xe8, 0x1f, 0x17, 0x1b, 0xcc, 0x55, 0xa6, 0xff, 0x83, 0x45, 0xe6, 0x92, 0xc0, 0xf8, 0x6e,
     0x5b, 0x48, 0xe0, 0x1b, 0x99, 0x6c, 0xad, 0xc0, 0x01, 0x62, 0x2f, 0xb5, 0xe3, 0x63, 0xb4, 0x21]"
  unfolding keccak_256_def
  apply (simp add: pad_def blocks.simps replicate_step)
  apply (simp only: keccak_eval)
  apply (simp add: squeeze_def upt_32 bits_byte_def)
  done

lemma keccak_256_vector_1:
  "keccak_256 (utf8ToBytes ''5aaeb6053f3e94c9b9a09f33669435e7ef1beaed'') =
    [0xd3, 0x85, 0x65, 0x0c, 0xe8, 0xfd, 0xc6, 0xdb, 0x7e, 0xe3, 0xa0, 0x91, 0xd3, 0x48, 0x14, 0xdb,
     0xc4, 0xce, 0x18, 0x21, 0x9f, 0xfa, 0xe5, 0x21, 0x82, 0xef, 0xff, 0x40, 0x34, 0xd7, 0x07, 0xe5]"
  unfolding keccak_256_def
  apply (simp add: utf8ToBytes_def pad_def blocks.simps replicate_step)
  apply (simp only: keccak_eval)
  apply (simp add: squeeze_def upt_32 bits_byte_def)
  done

lemma keccak_256_vector_2:
  "keccak_256 (utf8ToBytes ''fb6916095ca1df60bb79ce92ce3ea74c37c5d359'') =
    [0x5c, 0xfa, 0xc6, 0x63, 0xf4, 0x58, 0x37, 0xb4, 0x09, 0xc4, 0xd3, 0xdc, 0x1c, 0xef, 0x5f, 0x47,
     0x59, 0x73, 0x4f, 0x49, 0x89, 0xdd, 0x53, 0xa3, 0x1b, 0x12, 0x65, 0x73, 0x4c, 0x0b, 0x28, 0xf4]"
  unfolding keccak_256_def
  apply (simp add: utf8ToBytes_def pad_def blocks.simps replicate_step)
  apply (simp only: keccak_eval)
  apply (simp add: squeeze_def upt_32 bits_byte_def)
  done

lemma keccak_256_vector_3:
  "keccak_256 (utf8ToBytes ''300x5aaeb6053f3e94c9b9a09f33669435e7ef1beaed'') =
    [0x12, 0x4a, 0xad, 0x8f, 0x63, 0xe7, 0xc9, 0x7e, 0x71, 0x7e, 0xa1, 0x82, 0xc4, 0x6d, 0x4e, 0x9b,
     0x15, 0xb7, 0xce, 0x2a, 0x6d, 0x31, 0xcd, 0xa5, 0xf2, 0x91, 0x4d, 0x86, 0x2f, 0xb4, 0xb8, 0x99]"
  unfolding keccak_256_def
  apply (simp add: utf8ToBytes_def pad_def blocks.simps replicate_step)
  apply (simp only: keccak_eval)
  apply (simp add: squeeze_def upt_32 bits_byte_def)
  done

lemma keccak_256_create_14:
  "keccak_256 
     [0xd6, 0x94, 0x99, 0x0c, 0xcf, 0x8a, 0x0d, 0xe5, 0x80, 0x91, 0xc0, 0x28, 0xd6, 0xff, 0x76, 0xbb,
     0x23, 0x5e, 0xe6, 0x7c, 0x1c, 0x39, 0x0e] =
    [0x4c, 0xf1, 0xd3, 0x2f, 0x0b, 0xcc, 0xaa, 0xa0, 0xc6, 0xf7, 0xa2, 0x10, 0xd6, 0x58, 0xa4, 0xb8,
     0x24, 0x7c, 0x14, 0x86, 0x8f, 0x3c, 0x51, 0x2f, 0xa5, 0xcb, 0xb6, 0xe4, 0x58, 0xe4, 0xa9, 0x89]"
  unfolding keccak_256_def
  apply (simp add: pad_def blocks.simps replicate_step)
  apply (simp only: keccak_eval)
  apply (simp add: squeeze_def upt_32 bits_byte_def)
  done

lemma keccak_256_create_0:
  "keccak_256 
     [0xd6, 0x94, 0x99, 0x0c, 0xcf, 0x8a, 0x0d, 0xe5, 0x80, 0x91, 0xc0, 0x28, 0xd6, 0xff, 0x76, 0xbb,
     0x23, 0x5e, 0xe6, 0x7c, 0x1c, 0x39, 0x80] =
    [0x34, 0x18, 0x2b, 0xfd, 0xdc, 0xce, 0x3a, 0x3f, 0xd2, 0xf2, 0xf9, 0xcf, 0xbf, 0xa6, 0x9b, 0xa9,
     0x13, 0x85, 0x20, 0x6b, 0xfd, 0xd2, 0xd8, 0xb9, 0xc1, 0xa5, 0xd6, 0xc1, 0x00, 0x97, 0xa8, 0x5b]"
  unfolding keccak_256_def
  apply (simp add: pad_def blocks.simps replicate_step)
  apply (simp only: keccak_eval)
  apply (simp add: squeeze_def upt_32 bits_byte_def)
  done

lemma keccak_256_zero_byte:
  "keccak_256 [0] =
    [0xbc, 0x36, 0x78, 0x9e, 0x7a, 0x1e, 0x28, 0x14, 0x36, 0x46, 0x42, 0x29, 0x82, 0x8f, 0x81, 0x7d,
     0x66, 0x12, 0xf7, 0xb4, 0x77, 0xd6, 0x65, 0x91, 0xff, 0x96, 0xa9, 0xe0, 0x64, 0xbc, 0xc9, 0x8a]"
  unfolding keccak_256_def
  apply (simp add: pad_def blocks.simps replicate_step)
  apply (simp only: keccak_eval)
  apply (simp add: squeeze_def upt_32 bits_byte_def)
  done

lemma keccak_256_create2:
  "keccak_256 
     [0xff, 0x00, 0x00, 0x00, 0x00, 0x00, 0x00, 0x00, 0x00, 0x00, 0x00, 0x00, 0x00, 0x00, 0x00, 0x00,
     0x00, 0x00, 0x00, 0x00, 0x00, 0x00, 0x00, 0x00, 0x00, 0x00, 0x00, 0x00, 0x00, 0x00, 0x00, 0x00,
     0x00, 0x00, 0x00, 0x00, 0x00, 0x00, 0x00, 0x00, 0x00, 0x00, 0x00, 0x00, 0x00, 0x00, 0x00, 0x00,
     0x00, 0x00, 0x00, 0x00, 0x00, 0xbc, 0x36, 0x78, 0x9e, 0x7a, 0x1e, 0x28, 0x14, 0x36, 0x46, 0x42,
     0x29, 0x82, 0x8f, 0x81, 0x7d, 0x66, 0x12, 0xf7, 0xb4, 0x77, 0xd6, 0x65, 0x91, 0xff, 0x96, 0xa9,
     0xe0, 0x64, 0xbc, 0xc9, 0x8a] =
    [0x07, 0x34, 0xb9, 0xfb, 0x13, 0x8d, 0xd4, 0xe5, 0xe6, 0xca, 0x85, 0xee, 0x4d, 0x1a, 0x2e, 0x2b,
     0xb4, 0xf8, 0x8f, 0x02, 0x50, 0xf2, 0x6f, 0xff, 0xf0, 0x98, 0xb0, 0xb3, 0x0b, 0x26, 0xbf, 0x38]"
  unfolding keccak_256_def
  apply (simp add: pad_def blocks.simps replicate_step)
  apply (simp only: keccak_eval)
  apply (simp add: squeeze_def upt_32 bits_byte_def)
  done

lemmas string_eval =
  isHexString_def isHexDigit_def hexDigitValue_def toLowerCase_def toLowerCase_char_def
  toUpperCase_char_def char_of_def bit_Suc_0_iff bytesToHex_def hexDigit_def charAt_def
  parseInt16_def atLeast8_def

lemma checksum_vector_1:
  "toChecksumAddress ''0x5aaeb6053f3e94c9b9a09f33669435e7ef1beaed'' None
     = Inr ''0x5aAeb6053F3E94C9b9A09f33669435E7Ef1BeAed''"
proof -
  have low: "toLowerCase (drop 2 ''0x5aaeb6053f3e94c9b9a09f33669435e7ef1beaed'')
      = ''5aaeb6053f3e94c9b9a09f33669435e7ef1beaed''"
    by (simp add: string_eval)
  have hex: "isHexString ''0x5aaeb6053f3e94c9b9a09f33669435e7ef1beaed''"
    by (simp add: string_eval)
  show ?thesis
    unfolding toChecksumAddress_unfold low
    by (simp add: hex andThen_simps keccak_256_vector_1 upt_rec_numeral string_eval)
qed

lemma checksum_vector_2:
  "toChecksumAddress ''0xfb6916095ca1df60bb79ce92ce3ea74c37c5d359'' None
     = Inr ''0xfB6916095ca1df60bB79Ce92cE3Ea74c37c5d359''"
proof -
  have low: "toLowerCase (drop 2 ''0xfb6916095ca1df60bb79ce92ce3ea74c37c5d359'')
      = ''fb6916095ca1df60bb79ce92ce3ea74c37c5d359''"
    by (simp add: string_eval)
  have hex: "isHexString ''0xfb6916095ca1df60bb79ce92ce3ea74c37c5d359''"
    by (simp add: string_eval)
  show ?thesis
    unfolding toChecksumAddress_unfold low
    by (simp add: hex andThen_simps keccak_256_vector_2 upt_rec_numeral string_eval)
qed

lemma checksum_vector_3:
  "toChecksumAddress ''0x5aaeb6053f3e94c9b9a09f33669435e7ef1beaed'' (Some (Number 30))
     = Inr ''0x5aaEB6053f3e94c9b9a09f33669435E7ef1bEAeD''"
proof -
  have low: "toLowerCase (drop 2 ''0x5aaeb6053f3e94c9b9a09f33669435e7ef1beaed'')
      = ''5aaeb6053f3e94c9b9a09f33669435e7ef1beaed''"
    by (simp add: string_eval)
  have hex: "isHexString ''0x5aaeb6053f3e94c9b9a09f33669435e7ef1beaed''"
    by (simp add: string_eval)
  have chain: "andThen (toBytes (Number 30)) (\<lambda>b. Inr (toString (bytesToBigInt b) @ ''0x''))
      = Inr ''300x''"
    by (simp add: toBytes_def intToBytes_def paddedBytes_def
        natToBytes_eval andThen_simps bytesToBigInt_def toString_def toString_nat.simps
        decimalDigit_def)
  show ?thesis
    unfolding toChecksumAddress_unfold low
    by (simp add: hex chain andThen_simps keccak_256_vector_3 upt_rec_numeral string_eval)
qed

lemma KECCAK256_NULL_hash: "KECCAK256_NULL = keccak_256 []"
  by (simp add: KECCAK256_NULL_def keccak_256_empty)

lemma KECCAK256_RLP_hash: "KECCAK256_RLP = keccak_256 (RLP_encode (Bytes []))"
  by (simp add: KECCAK256_RLP_def encodeLength_def keccak_256_rlp_empty)

lemma hexDigitValue_hexDigit: "hexDigitValue (hexDigit n) = Some (n mod 16)"
proof -
  have "n mod 16 \<in> {0, 1, 2, 3, 4, 5, 6, 7, 8, 9, 10, 11, 12, 13, 14, 15}"
    by (simp add: insert_iff) presburger
  then show ?thesis
    unfolding hexDigit_def
    by (elim insertE emptyE) (simp_all add: hexDigitValue_def)
qed

lemma nth_bytesToHex:
  "i < 2 * length bs \<Longrightarrow>
     drop 2 (bytesToHex bs) ! i =
       hexDigit (if even i then unat (bs ! (i div 2)) div 16 else unat (bs ! (i div 2)) mod 16)"
proof (induction bs arbitrary: i)
  case Nil
  then show ?case by simp
next
  case (Cons b bs)
  have step: "drop 2 (bytesToHex (b # bs)) =
      hexDigit (unat b div 16) # hexDigit (unat b mod 16) # drop 2 (bytesToHex bs)"
    by (simp add: bytesToHex_def)
  consider "i = 0" | "i = 1" | j where "i = Suc (Suc j)"
    by (metis One_nat_def not0_implies_Suc)
  then show ?case
  proof cases
    case 1
    then show ?thesis by (simp add: step)
  next
    case 2
    then show ?thesis by (simp add: step)
  next
    case 3
    with Cons.prems have "j < 2 * length bs" by simp
    from Cons.IH [OF this] show ?thesis
      by (simp add: step 3)
  qed
qed

section \<open>Properties of the Account class\<close>

text \<open>
  C2. Claimed: for every Account whose nonce is the absent marker, \<open>isEmpty()\<close>
  fails with the accessor's not-loaded error. The first operand of the
  short-circuit test decides before the nonce is read: the account constructed
  with an absent nonce and balance 1 gives \<open>false\<close>.
\<close>

theorem isEmpty_nonce_absent_counterexample:
  "newAccount Null (Value 1) Undefined Undefined Undefined Undefined =
     Inr \<lparr>p_nonce = None, p_balance = Some 1, p_storageRoot = Some KECCAK256_RLP,
          p_codeHash = Some KECCAK256_NULL, p_codeSize = Some 0, p_version = Some 0\<rparr>
   \<and> isEmpty \<lparr>p_nonce = None, p_balance = Some 1, p_storageRoot = Some KECCAK256_RLP,
              p_codeHash = Some KECCAK256_NULL, p_codeSize = Some 0, p_version = Some 0\<rparr>
       = Inr False"
  by (simp add: newAccount_def validate_def isContract_def Let_def equalsBytes_def
      length_KECCAK256_RLP length_KECCAK256_NULL isEmpty_def orElse_def andAlso_def test_def
      get_balance_def)

text \<open>
  C2, as the code has it: for every Account whose nonce is the absent marker,
  \<open>isEmpty()\<close> returns \<open>false\<close> when the balance is present and non-zero, and
  fails with the nonce accessor's not-loaded error in every other case.
\<close>

theorem isEmpty_nonce_absent:
  "p_nonce this = None \<Longrightarrow>
     isEmpty this =
       (if (\<exists>b. p_balance this = Some b \<and> b \<noteq> 0) then Inr False
        else Inl (NotLoaded ''nonce=null not loaded''))"
  by (auto simp: isEmpty_def orElse_def andAlso_def test_def get_balance_def get_nonce_def
           split: option.splits)

theorem isEmpty_nonce_absent_witness:
  "isEmpty \<lparr>p_nonce = None, p_balance = Some 0, p_storageRoot = Some KECCAK256_RLP,
            p_codeHash = Some KECCAK256_NULL, p_codeSize = Some 0, p_version = Some 0\<rparr>
     = Inl (NotLoaded ''nonce=null not loaded'')
   \<and> isEmpty \<lparr>p_nonce = None, p_balance = None, p_storageRoot = None,
              p_codeHash = Some KECCAK256_RLP, p_codeSize = None, p_version = None\<rparr>
     = Inl (NotLoaded ''nonce=null not loaded'')
   \<and> isEmpty \<lparr>p_nonce = None, p_balance = Some 3, p_storageRoot = None,
              p_codeHash = None, p_codeSize = None, p_version = None\<rparr> = Inr False"
  using isEmpty_nonce_absent [of "\<lparr>p_nonce = None, p_balance = Some 0,
            p_storageRoot = Some KECCAK256_RLP, p_codeHash = Some KECCAK256_NULL,
            p_codeSize = Some 0, p_version = Some 0\<rparr>"]
        isEmpty_nonce_absent [of "\<lparr>p_nonce = None, p_balance = None, p_storageRoot = None,
            p_codeHash = Some KECCAK256_RLP, p_codeSize = None, p_version = None\<rparr>"]
        isEmpty_nonce_absent [of "\<lparr>p_nonce = None, p_balance = Some 3, p_storageRoot = None,
            p_codeHash = None, p_codeSize = None, p_version = None\<rparr>"]
  by simp

text \<open>
  C4. The shared partial-field decoder: an empty sub-list, or a first element
  that decodes to 0, gives the absent marker; a first element that decodes to 1
  gives the second element, and fails with "Invalid values length=1" when there
  is none; a first element that decodes to an integer above 1 fails with
  "Invalid isNullIndicator=" followed by that integer.
\<close>

theorem handleNullIndicator_cases:
  "handleNullIndicator [] = Inr None
   \<and> (bytesToInt b = 0 \<longrightarrow> handleNullIndicator (Bytes b # rest) = Inr None)
   \<and> (bytesToInt b = 1 \<longrightarrow>
        handleNullIndicator (Bytes b # rest) =
          (case rest of
             [] \<Rightarrow> Inl (InvalidInput ''Invalid values length=1'')
           | x # _ \<Rightarrow> Inr (Some x)))
   \<and> (bytesToInt b > 1 \<longrightarrow>
        handleNullIndicator (Bytes b # rest) =
          Inl (InvalidInput (''Invalid isNullIndicator='' @ toString (bytesToInt b))))"
  by (auto simp: handleNullIndicator_def andThen_def Let_def toString_1 split: list.splits)

theorem handleNullIndicator_cases_witness:
  "handleNullIndicator [Bytes []] = Inr None
   \<and> handleNullIndicator [Bytes [1], Bytes [5]] = Inr (Some (Bytes [5]))
   \<and> handleNullIndicator [Bytes [1]] = Inl (InvalidInput ''Invalid values length=1'')
   \<and> handleNullIndicator [Bytes [2], Bytes [5]] = Inl (InvalidInput ''Invalid isNullIndicator=2'')"
  using handleNullIndicator_cases [of "[]" "[]"]
        handleNullIndicator_cases [of "[1]" "[Bytes [5]]"]
        handleNullIndicator_cases [of "[1]" "[]"]
        handleNullIndicator_cases [of "[2]" "[Bytes [5]]"]
  by (simp add: bytesToInt_def bytesToBigInt_def toString_def toString_nat.simps decimalDigit_def)

text \<open>
  C7. The base constructor fails with InvalidInput exactly when a present field
  violates its bound: a negative nonce, balance or code size, or a storage root
  or code hash that is not 32 bytes long. Otherwise it succeeds, whatever mix of
  omitted, absent and in-bound present arguments it is given: absent fields stay
  absent, omitted ones take their defaults, and an absent code size next to the
  empty-code hash is inferred to 0.
\<close>

theorem newAccount_validation:
  "((\<exists>msg. newAccount nonce balance storageRoot codeHash codeSize version = Inl (InvalidInput msg))
     \<longleftrightarrow>
    ((\<exists>n. nonce = Value n \<and> n < 0) \<or> (\<exists>n. balance = Value n \<and> n < 0)
     \<or> (\<exists>r. storageRoot = Value r \<and> length r \<noteq> 32)
     \<or> (\<exists>h. codeHash = Value h \<and> length h \<noteq> 32)
     \<or> (\<exists>n. codeSize = Value n \<and> n < 0)))
   \<and>
   (\<not> ((\<exists>n. nonce = Value n \<and> n < 0) \<or> (\<exists>n. balance = Value n \<and> n < 0)
     \<or> (\<exists>r. storageRoot = Value r \<and> length r \<noteq> 32)
     \<or> (\<exists>h. codeHash = Value h \<and> length h \<noteq> 32)
     \<or> (\<exists>n. codeSize = Value n \<and> n < 0))
    \<longrightarrow>
    newAccount nonce balance storageRoot codeHash codeSize version =
      Inr \<lparr>p_nonce = withDefault 0 nonce,
           p_balance = withDefault 0 balance,
           p_storageRoot = withDefault KECCAK256_RLP storageRoot,
           p_codeHash = withDefault KECCAK256_NULL codeHash,
           p_codeSize =
             (if codeSize = Null \<and> (codeHash = Undefined \<or> codeHash = Value KECCAK256_NULL)
              then Some 0 else withDefault 0 codeSize),
           p_version = withDefault 0 version\<rparr>)"
  apply (cases nonce; cases balance; cases storageRoot; cases codeHash; cases codeSize)
  apply (simp_all add: newAccount_def validate_def isContract_def Let_def equalsBytes_def
      length_KECCAK256_RLP length_KECCAK256_NULL)
  done

theorem newAccount_validation_witness:
  "(\<exists>msg. newAccount (Value (- 1)) Null Null Null Null Null = Inl (InvalidInput msg))
   \<and> newAccount Null (Value 7) Null (Value KECCAK256_NULL) Null Null =
      Inr \<lparr>p_nonce = None, p_balance = Some 7, p_storageRoot = None,
           p_codeHash = Some KECCAK256_NULL, p_codeSize = Some 0, p_version = None\<rparr>"
  using newAccount_validation [of "Value (- 1)" Null Null Null Null Null]
        newAccount_validation [of Null "Value 7" Null "Value KECCAK256_NULL" Null Null]
  by (simp add: length_KECCAK256_NULL)

section \<open>Properties of the slim account body\<close>

text \<open>
  C8. On every body whose storage root and code hash are each the default
  constant or a 32-byte value, expanding the slimmed body gives the body back;
  and slimming replaces exactly the fields equal to their default constant by
  the empty byte string, leaving every other value as it is.
\<close>

theorem accountBody_slim:
  "((storageRoot = KECCAK256_RLP \<or> length storageRoot = 32) \<longrightarrow>
    (codeHash = KECCAK256_NULL \<or> length codeHash = 32) \<longrightarrow>
      accountBodyFromSlim (accountBodyToSlim (nonce, balance, storageRoot, codeHash))
        = (nonce, balance, storageRoot, codeHash))
   \<and> accountBodyToSlim (nonce, balance, storageRoot, codeHash)
        = (nonce, balance,
           if storageRoot = KECCAK256_RLP then [] else storageRoot,
           if codeHash = KECCAK256_NULL then [] else codeHash)"
  by (auto simp: accountBodyFromSlim_def accountBodyToSlim_def equalsBytes_def emptyUint8Arr_def)

theorem accountBody_slim_witness:
  "accountBodyFromSlim (accountBodyToSlim ([1], [], KECCAK256_RLP, KECCAK256_RLP))
     = ([1], [], KECCAK256_RLP, KECCAK256_RLP)
   \<and> accountBodyToSlim ([1], [], KECCAK256_RLP, KECCAK256_RLP) = ([1], [], [], KECCAK256_RLP)"
  using accountBody_slim [of KECCAK256_RLP KECCAK256_RLP "[1]" "[]"]
  by (auto simp: KECCAK256_RLP_neq_NULL length_KECCAK256_RLP)

section \<open>Properties of the envelope helpers\<close>

text \<open>
  C9. \<open>validateYParity\<close> accepts a transaction whose y-parity is absent, 0 or 1,
  fails with InvalidInput carrying the message "The y-parity of the transaction
  should either be 0 or 1" (as \<open>errorMsg\<close> renders it) for any other value, and
  leaves the transaction as it was in every case.
\<close>

theorem validateYParity_spec:
  "validateYParity errorMsg tx =
    (if v tx = None \<or> v tx = Some 0 \<or> v tx = Some 1 then (Inr (), tx)
     else (Inl (InvalidInput
             (errorMsg tx ''The y-parity of the transaction should either be 0 or 1'')), tx))"
  by (simp add: validateYParity_def)

theorem validateYParity_spec_witness:
  "validateYParity (\<lambda>tx msg. msg) \<lparr>txType = 2, v = Some 27\<rparr> =
     (Inl (InvalidInput ''The y-parity of the transaction should either be 0 or 1''),
      \<lparr>txType = 2, v = Some 27\<rparr>)
   \<and> validateYParity (\<lambda>tx msg. msg) \<lparr>txType = 2, v = Some 1\<rparr> = (Inr (), \<lparr>txType = 2, v = Some 1\<rparr>)
   \<and> validateYParity (\<lambda>tx msg. msg) \<lparr>txType = 2, v = None\<rparr> = (Inr (), \<lparr>txType = 2, v = None\<rparr>)"
  using validateYParity_spec [of "\<lambda>tx msg. msg" "\<lparr>txType = 2, v = Some 27\<rparr>"]
        validateYParity_spec [of "\<lambda>tx msg. msg" "\<lparr>txType = 2, v = Some 1\<rparr>"]
        validateYParity_spec [of "\<lambda>tx msg. msg" "\<lparr>txType = 2, v = None\<rparr>"]
  by simp

section \<open>Properties of the partial encoding\<close>

text \<open>
  C1. The partial round trip: \<open>createPartialAccount\<close> with nonce 5 (given as a
  \<open>bigint\<close> or as a \<open>number\<close>) and the other five fields given as the absent
  marker builds an account;
  \<open>serializeWithPartialInfo\<close> encodes it as one sub-list \<open>[1, 5]\<close> followed by
  five sub-lists \<open>[0]\<close>; \<open>createPartialAccountFromRLP\<close> of these bytes gives an account whose nonce accessor returns 5 and whose balance,
  storageRoot, codeHash, codeSize and version accessors each fail with the
  not-loaded error.
\<close>

theorem partial_round_trip:
  "createPartialAccount
      \<lparr>d_nonce = Value (BigInt 5), d_balance = Null, d_storageRoot = Null,
       d_codeHash = Null, d_codeSize = Null, d_version = Null\<rparr>
     = Inr \<lparr>p_nonce = Some 5, p_balance = None, p_storageRoot = None,
            p_codeHash = None, p_codeSize = None, p_version = None\<rparr>
   \<and> createPartialAccount
      \<lparr>d_nonce = Value (Number 5), d_balance = Null, d_storageRoot = Null,
       d_codeHash = Null, d_codeSize = Null, d_version = Null\<rparr>
     = Inr \<lparr>p_nonce = Some 5, p_balance = None, p_storageRoot = None,
            p_codeHash = None, p_codeSize = None, p_version = None\<rparr>
   \<and> serializeWithPartialInfo
        \<lparr>p_nonce = Some 5, p_balance = None, p_storageRoot = None,
         p_codeHash = None, p_codeSize = None, p_version = None\<rparr>
     = Inr [0xcd, 0xc2, 0x01, 0x05, 0xc1, 0x80, 0xc1, 0x80, 0xc1, 0x80, 0xc1, 0x80, 0xc1, 0x80]
   \<and> createPartialAccountFromRLP
        [0xcd, 0xc2, 0x01, 0x05, 0xc1, 0x80, 0xc1, 0x80, 0xc1, 0x80, 0xc1, 0x80, 0xc1, 0x80]
     = Inr \<lparr>p_nonce = Some 5, p_balance = None, p_storageRoot = None,
            p_codeHash = None, p_codeSize = None, p_version = None\<rparr>
   \<and> get_nonce \<lparr>p_nonce = Some 5, p_balance = None, p_storageRoot = None,
            p_codeHash = None, p_codeSize = None, p_version = None\<rparr> = Inr 5
   \<and> get_balance \<lparr>p_nonce = Some 5, p_balance = None, p_storageRoot = None,
            p_codeHash = None, p_codeSize = None, p_version = None\<rparr>
       = Inl (NotLoaded ''balance=null not loaded'')
   \<and> get_storageRoot \<lparr>p_nonce = Some 5, p_balance = None, p_storageRoot = None,
            p_codeHash = None, p_codeSize = None, p_version = None\<rparr>
       = Inl (NotLoaded ''storageRoot=null not loaded'')
   \<and> get_codeHash \<lparr>p_nonce = Some 5, p_balance = None, p_storageRoot = None,
            p_codeHash = None, p_codeSize = None, p_version = None\<rparr>
       = Inl (NotLoaded ''codeHash=null not loaded'')
   \<and> get_codeSize \<lparr>p_nonce = Some 5, p_balance = None, p_storageRoot = None,
            p_codeHash = None, p_codeSize = None, p_version = None\<rparr>
       = Inl (NotLoaded ''codeSize=null not loaded'')
   \<and> get_version \<lparr>p_nonce = Some 5, p_balance = None, p_storageRoot = None,
            p_codeHash = None, p_codeSize = None, p_version = None\<rparr>
       = Inl (NotLoaded ''version=null not loaded'')"
proof -
  have create: "createPartialAccount
      \<lparr>d_nonce = Value (Number 5), d_balance = Null, d_storageRoot = Null,
       d_codeHash = Null, d_codeSize = Null, d_version = Null\<rparr>
     = Inr \<lparr>p_nonce = Some 5, p_balance = None, p_storageRoot = None,
            p_codeHash = None, p_codeSize = None, p_version = None\<rparr>"
    by (simp add: createPartialAccount_def coerce_def andThen_def toBytes_def intToBytes_def
        paddedBytes_def natToBytes_eval bytesToBigInt_def newAccount_def
        validate_def Let_def)
  have create': "createPartialAccount
      \<lparr>d_nonce = Value (BigInt 5), d_balance = Null, d_storageRoot = Null,
       d_codeHash = Null, d_codeSize = Null, d_version = Null\<rparr>
     = Inr \<lparr>p_nonce = Some 5, p_balance = None, p_storageRoot = None,
            p_codeHash = None, p_codeSize = None, p_version = None\<rparr>"
    by (simp add: createPartialAccount_def coerce_def andThen_def toBytes_def
        paddedBytes_def natToBytes_eval bytesToBigInt_def newAccount_def
        validate_def Let_def)
  have ser: "serializeWithPartialInfo
        \<lparr>p_nonce = Some 5, p_balance = None, p_storageRoot = None,
         p_codeHash = None, p_codeSize = None, p_version = None\<rparr>
     = Inr [0xcd, 0xc2, 0x01, 0x05, 0xc1, 0x80, 0xc1, 0x80, 0xc1, 0x80, 0xc1, 0x80, 0xc1, 0x80]"
    by (simp add: serializeWithPartialInfo_def partialField_def andThen_def
        intToUnpaddedBytes_def bigIntToUnpaddedBytes_def natToBytes_eval
        encodeLength_def Let_def)
  have dec: "RLP_decode
        [0xcd, 0xc2, 0x01, 0x05, 0xc1, 0x80, 0xc1, 0x80, 0xc1, 0x80, 0xc1, 0x80, 0xc1, 0x80]
     = Inr (Items [Items [Bytes [1], Bytes [5]], Items [Bytes []], Items [Bytes []],
                   Items [Bytes []], Items [Bytes []], Items [Bytes []]])"
    by (simp add: RLP_decode_def andThen_def decode_fuel safeSlice_def Let_def del: Suc_numeral)
  have from_rlp: "createPartialAccountFromRLP
        [0xcd, 0xc2, 0x01, 0x05, 0xc1, 0x80, 0xc1, 0x80, 0xc1, 0x80, 0xc1, 0x80, 0xc1, 0x80]
     = Inr \<lparr>p_nonce = Some 5, p_balance = None, p_storageRoot = None,
            p_codeHash = None, p_codeSize = None, p_version = None\<rparr>"
    by (simp add: createPartialAccountFromRLP_def dec andThen_def isArray_def itemsOf_def
        handleNullIndicator_def bytesToInt_def bytesToBigInt_def
        element_def rawInteger_def rawBytes_def createPartialAccount_def coerce_def toBytes_def
        paddedBytes_def natToBytes_eval newAccount_def validate_def Let_def)
  show ?thesis
    by (simp add: create create' ser from_rlp get_nonce_def get_balance_def get_storageRoot_def
        get_codeHash_def get_codeSize_def get_version_def)
qed

section \<open>Properties of the address derivations\<close>

text \<open>
  C5. Claimed: \<open>generateAddress2\<close> fails with "Expected salt to be of length
  32" whenever the salt is not 32 bytes long. The length of \<open>from\<close> is checked
  first: with both lengths wrong, the failure is the one of \<open>from\<close>.
\<close>

theorem generateAddress2_salt_counterexample:
  "length ([] :: bytes) \<noteq> 32
   \<and> generateAddress2 [] [] [] = Inl (InvalidInput ''Expected from to be of length 20'')
   \<and> generateAddress2 [] [] [] \<noteq> Inl (InvalidInput ''Expected salt to be of length 32'')"
  by (simp add: generateAddress2_def)

text \<open>
  C5, as the code has it: \<open>generateAddress2\<close> fails with "Expected from to be of
  length 20" whenever \<open>from\<close> is not 20 bytes long, with "Expected salt to be of
  length 32" whenever \<open>from\<close> is 20 bytes long and the salt is not 32 bytes
  long, and for a 20-byte \<open>from\<close>, a 32-byte salt and any init code it returns
  the last 20 of the 32 bytes of the Keccak-256 hash of the byte \<open>0xff\<close>
  followed by \<open>from\<close>, the salt and the Keccak-256 hash of the init code.
\<close>

theorem generateAddress2_spec:
  "(length from \<noteq> 20 \<longrightarrow>
      generateAddress2 from salt initCode = Inl (InvalidInput ''Expected from to be of length 20''))
   \<and> (length from = 20 \<and> length salt \<noteq> 32 \<longrightarrow>
      generateAddress2 from salt initCode = Inl (InvalidInput ''Expected salt to be of length 32''))
   \<and> (length from = 20 \<and> length salt = 32 \<longrightarrow>
      generateAddress2 from salt initCode =
        Inr (drop 12 (keccak_256 (0xff # from @ salt @ keccak_256 initCode))))"
  by (simp add: generateAddress2_def concatBytes_def hexToBytes_ff subarray_last_def
      length_keccak_256 Let_def)

text \<open>
  The three cases on concrete inputs; the last one is example 0 of EIP-1014
  (address zero, salt zero, init code \<open>0x00\<close>).
\<close>

theorem generateAddress2_spec_witness:
  "generateAddress2 [] (replicate 32 0) [] = Inl (InvalidInput ''Expected from to be of length 20'')
   \<and> generateAddress2 (replicate 20 0) [] [] = Inl (InvalidInput ''Expected salt to be of length 32'')
   \<and> generateAddress2 (replicate 20 0) (replicate 32 0) [0] =
        Inr [0x4d, 0x1a, 0x2e, 0x2b, 0xb4, 0xf8, 0x8f, 0x02, 0x50, 0xf2,
             0x6f, 0xff, 0xf0, 0x98, 0xb0, 0xb3, 0x0b, 0x26, 0xbf, 0x38]"
  using generateAddress2_spec [of "[]" "replicate 32 0" "[]"]
        generateAddress2_spec [of "replicate 20 0" "[]" "[]"]
        generateAddress2_spec [of "replicate 20 0" "replicate 32 0" "[0]"]
  by (simp add: keccak_256_zero_byte replicate_step keccak_256_create2)

text \<open>
  C6. \<open>generateAddress\<close>: when the nonce bytes read as the integer 0 (the empty
  string, or any string of zero bytes such as the single byte \<open>0x00\<close>), the
  address is the last 20 of the 32 bytes of the Keccak-256 hash of the RLP
  encoding of \<open>[from, empty]\<close>; otherwise it is the last 20 bytes of the hash of
  the RLP encoding of \<open>[from, nonce]\<close>, with the nonce bytes as they were given.
  No length is required of \<open>from\<close>.
\<close>

theorem generateAddress_spec:
  "(bytesToBigInt nonce = 0 \<longrightarrow>
      generateAddress from nonce =
        drop 12 (keccak_256 (RLP_encode (Items [Bytes from, Bytes []]))))
   \<and> (bytesToBigInt nonce \<noteq> 0 \<longrightarrow>
      generateAddress from nonce =
        drop 12 (keccak_256 (RLP_encode (Items [Bytes from, Bytes nonce]))))
   \<and> generateAddress from (replicate k 0) = generateAddress from []
   \<and> length (generateAddress from nonce) = 20"
  by (simp add: generateAddress_def subarray_last_def length_keccak_256 bytesToBigInt_zeros
      del: RLP_encode.simps)

text \<open>
  Both cases for the creator \<open>0x990ccf8a0de58091c028d6ff76bb235ee67c1c39\<close>: nonce
  14, and the nonce given as the single byte \<open>0x00\<close>.
\<close>

theorem generateAddress_spec_witness:
  "generateAddress [0x99, 0x0c, 0xcf, 0x8a, 0x0d, 0xe5, 0x80, 0x91, 0xc0, 0x28,
                    0xd6, 0xff, 0x76, 0xbb, 0x23, 0x5e, 0xe6, 0x7c, 0x1c, 0x39] [14]
     = [0xd6, 0x58, 0xa4, 0xb8, 0x24, 0x7c, 0x14, 0x86, 0x8f, 0x3c,
        0x51, 0x2f, 0xa5, 0xcb, 0xb6, 0xe4, 0x58, 0xe4, 0xa9, 0x89]
   \<and> generateAddress [0x99, 0x0c, 0xcf, 0x8a, 0x0d, 0xe5, 0x80, 0x91, 0xc0, 0x28,
                      0xd6, 0xff, 0x76, 0xbb, 0x23, 0x5e, 0xe6, 0x7c, 0x1c, 0x39] [0]
     = [0xbf, 0xa6, 0x9b, 0xa9, 0x13, 0x85, 0x20, 0x6b, 0xfd, 0xd2,
        0xd8, 0xb9, 0xc1, 0xa5, 0xd6, 0xc1, 0x00, 0x97, 0xa8, 0x5b]"
  using generateAddress_spec [of "[14]"
          "[0x99, 0x0c, 0xcf, 0x8a, 0x0d, 0xe5, 0x80, 0x91, 0xc0, 0x28,
            0xd6, 0xff, 0x76, 0xbb, 0x23, 0x5e, 0xe6, 0x7c, 0x1c, 0x39]"]
        generateAddress_spec [of "[0]"
          "[0x99, 0x0c, 0xcf, 0x8a, 0x0d, 0xe5, 0x80, 0x91, 0xc0, 0x28,
            0xd6, 0xff, 0x76, 0xbb, 0x23, 0x5e, 0xe6, 0x7c, 0x1c, 0x39]" 1]
  by (simp add: bytesToBigInt_def encodeLength_def keccak_256_create_14 keccak_256_create_0)

section \<open>Properties of the checksum\<close>

text \<open>
  C3. Without a chain id, \<open>toChecksumAddress\<close> implements the rule of EIP-55: on
  \<open>0x\<close> followed by 40 hexadecimal characters the result is \<open>0x\<close> followed by
  40 characters, and the character at position \<open>i\<close> is the upper-case form of
  the lower-cased input character when hexadecimal digit \<open>i\<close> of the Keccak-256
  hash of the lower-cased address (the high half of byte \<open>i div 2\<close> for even
  \<open>i\<close>, the low half for odd \<open>i\<close>) is at least 8, and the lower-cased character
  itself otherwise. The two vectors of EIP-55 come out as published.
\<close>

theorem toChecksumAddress_eip55:
  "(isHexString hexAddress \<and> length hexAddress = 42 \<longrightarrow>
      (let address = toLowerCase (drop 2 hexAddress);
           hash = keccak_256 (utf8ToBytes address)
       in \<exists>ret. toChecksumAddress hexAddress None = Inr (''0x'' @ ret)
            \<and> length ret = 40
            \<and> (\<forall>i<40. ret ! i =
                  (if (if even i then unat (hash ! (i div 2)) div 16
                       else unat (hash ! (i div 2)) mod 16) \<ge> 8
                   then toUpperCase_char (address ! i) else address ! i))))
   \<and> toChecksumAddress ''0x5aaeb6053f3e94c9b9a09f33669435e7ef1beaed'' None
        = Inr ''0x5aAeb6053F3E94C9b9A09f33669435E7Ef1BeAed''
   \<and> toChecksumAddress ''0xfb6916095ca1df60bb79ce92ce3ea74c37c5d359'' None
        = Inr ''0xfB6916095ca1df60bB79Ce92cE3Ea74c37c5d359''"
proof -
  have rule: "\<exists>ret. toChecksumAddress hexAddress None = Inr (''0x'' @ ret)
            \<and> length ret = 40
            \<and> (\<forall>i<40. ret ! i =
                  (if (if even i then unat (keccak_256 (utf8ToBytes address) ! (i div 2)) div 16
                       else unat (keccak_256 (utf8ToBytes address) ! (i div 2)) mod 16) \<ge> 8
                   then toUpperCase_char (address ! i) else address ! i))"
    if hex: "isHexString hexAddress" and len: "length hexAddress = 42"
      and address: "address = toLowerCase (drop 2 hexAddress)" for address
  proof -
    define hash where "hash = keccak_256 (utf8ToBytes address)"
    define ret where "ret =
      map (\<lambda>i. if atLeast8 (parseInt16 (charAt (drop 2 (bytesToHex hash)) i))
                then toUpperCase_char (address ! i) else address ! i) [0..<length address]"
    have la: "length address = 40"
      by (simp add: address length_toLowerCase len)
    have res: "toChecksumAddress hexAddress None = Inr (''0x'' @ ret)"
      by (simp add: toChecksumAddress_unfold hex andThen_simps ret_def hash_def address)
    have digit: "atLeast8 (parseInt16 (charAt (drop 2 (bytesToHex hash)) i)) =
        ((if even i then unat (hash ! (i div 2)) div 16 else unat (hash ! (i div 2)) mod 16) \<ge> 8)"
      if "i < 40" for i
    proof -
      from that have i: "i < 2 * length hash"
        by (simp add: hash_def length_keccak_256)
      then have "i < length (drop 2 (bytesToHex hash))"
        by (simp add: length_bytesToHex)
      then have "parseInt16 (charAt (drop 2 (bytesToHex hash)) i)
          = hexDigitValue (drop 2 (bytesToHex hash) ! i)"
        by (simp add: charAt_def parseInt16_def)
      also have "\<dots> = Some ((if even i then unat (hash ! (i div 2)) div 16
                              else unat (hash ! (i div 2)) mod 16) mod 16)"
        by (simp only: nth_bytesToHex [OF i] hexDigitValue_hexDigit)
      also have "(if even i then unat (hash ! (i div 2)) div 16
                  else unat (hash ! (i div 2)) mod 16) mod 16
          = (if even i then unat (hash ! (i div 2)) div 16 else unat (hash ! (i div 2)) mod 16)"
      proof -
        have "unat (hash ! (i div 2)) < 256"
          using unsigned_less [of "hash ! (i div 2)", where 'a = nat] by simp
        then show ?thesis by auto
      qed
      finally show ?thesis
        by (simp add: atLeast8_def)
    qed
    have "\<forall>i<40. ret ! i =
        (if (if even i then unat (hash ! (i div 2)) div 16 else unat (hash ! (i div 2)) mod 16) \<ge> 8
         then toUpperCase_char (address ! i) else address ! i)"
      by (simp add: ret_def la digit)
    with res la show ?thesis
      unfolding hash_def by (intro exI [of _ ret]) (simp add: ret_def)
  qed
  show ?thesis
    using rule by (simp add: Let_def checksum_vector_1 checksum_vector_2)
qed

text \<open>
  The rule at the first vector: position 2 holds \<open>a\<close>, hash digit 2 is 8, and
  the result has \<open>A\<close> there; position 0 holds the digit \<open>5\<close>.
\<close>

theorem toChecksumAddress_eip55_witness:
  "isHexString ''0x5aaeb6053f3e94c9b9a09f33669435e7ef1beaed''
   \<and> length ''0x5aaeb6053f3e94c9b9a09f33669435e7ef1beaed'' = 42
   \<and> (\<exists>ret. toChecksumAddress ''0x5aaeb6053f3e94c9b9a09f33669435e7ef1beaed'' None
                = Inr (''0x'' @ ret)
          \<and> length ret = 40 \<and> ret ! 0 = CHR ''5'' \<and> ret ! 2 = CHR ''A'')"
proof -
  have hex: "isHexString ''0x5aaeb6053f3e94c9b9a09f33669435e7ef1beaed''"
    by (simp add: string_eval)
  have low: "toLowerCase (drop 2 ''0x5aaeb6053f3e94c9b9a09f33669435e7ef1beaed'')
      = ''5aaeb6053f3e94c9b9a09f33669435e7ef1beaed''"
    by (simp add: string_eval)
  from toChecksumAddress_eip55 [of "''0x5aaeb6053f3e94c9b9a09f33669435e7ef1beaed''"] hex
  obtain ret where
    res: "toChecksumAddress ''0x5aaeb6053f3e94c9b9a09f33669435e7ef1beaed'' None = Inr (''0x'' @ ret)"
    and len: "length ret = 40"
    and rule: "\<forall>i<40. ret ! i =
        (if (if even i
             then unat (keccak_256 (utf8ToBytes ''5aaeb6053f3e94c9b9a09f33669435e7ef1beaed'')
                          ! (i div 2)) div 16
             else unat (keccak_256 (utf8ToBytes ''5aaeb6053f3e94c9b9a09f33669435e7ef1beaed'')
                          ! (i div 2)) mod 16) \<ge> 8
         then toUpperCase_char (''5aaeb6053f3e94c9b9a09f33669435e7ef1beaed'' ! i)
         else ''5aaeb6053f3e94c9b9a09f33669435e7ef1beaed'' ! i)"
    unfolding Let_def low by auto
  from rule have "ret ! 0 = CHR ''5''" and "ret ! 2 = CHR ''A''"
    by (simp_all add: keccak_256_vector_1 string_eval)
  with hex res len show ?thesis
    by auto
qed

text \<open>
  C10. \<open>toChecksumAddress\<close> is idempotent: whenever it succeeds on a string and
  an optional chain id, applying it to the result with the same chain id gives
  that result again.
\<close>

theorem toChecksumAddress_idempotent:
  assumes "toChecksumAddress hexAddress chainId = Inr out"
  shows "toChecksumAddress out chainId = Inr out"
proof -
  define pre where "pre =
    (case chainId of
       None \<Rightarrow> Inr []
     | Some c \<Rightarrow> andThen (toBytes c) (\<lambda>b. Inr (toString (bytesToBigInt b) @ ''0x'')))"
  define body where "body = (\<lambda>prefix address.
    map (\<lambda>i. if atLeast8 (parseInt16 (charAt
                   (drop 2 (bytesToHex (keccak_256 (utf8ToBytes (prefix @ address))))) i))
              then toUpperCase_char (address ! i) else address ! i)
        [0..<length address])"
  have unfold: "toChecksumAddress h chainId =
      (if \<not> isHexString h then
         Inl (InvalidInput (''This method only supports 0x-prefixed hex strings but input was: '' @ h))
       else andThen pre (\<lambda>prefix. Inr (''0x'' @ body prefix (toLowerCase (drop 2 h)))))" for h
    by (simp only: toChecksumAddress_unfold pre_def body_def)
  define address where "address = toLowerCase (drop 2 hexAddress)"
  from assms have hex: "isHexString hexAddress"
    by (auto simp: unfold split: if_splits)
  with assms obtain prefix where pre: "pre = Inr prefix"
    and out: "out = ''0x'' @ body prefix address"
    by (cases pre) (auto simp: unfold andThen_def address_def)
  have digits: "list_all isHexDigit address"
    using hex by (simp add: address_def isHexString_def toLowerCase_def list_all_iff isHexDigit_lower)
  have lower: "toLowerCase address = address"
    by (simp add: address_def toLowerCase_def toLowerCase_char_idem)
  then have nth_lower: "toLowerCase_char (address ! i) = address ! i" if "i < length address" for i
    using that by (metis nth_map toLowerCase_def)
  have "toLowerCase (body prefix address) = map (\<lambda>i. address ! i) [0..<length address]"
    by (simp add: body_def toLowerCase_def toLowerCase_char_upper nth_lower)
  then have restored: "toLowerCase (body prefix address) = address"
    by (simp add: map_nth)
  have "list_all isHexDigit (body prefix address)"
    using digits by (auto simp: body_def list_all_iff isHexDigit_upper)
  then have hex_out: "isHexString out"
    by (simp add: out isHexString_def)
  have "toChecksumAddress out chainId = Inr (''0x'' @ body prefix (toLowerCase (drop 2 out)))"
    by (simp add: unfold [of out] hex_out pre andThen_def)
  also have "drop 2 out = body prefix address"
    by (simp add: out)
  finally show ?thesis
    by (simp add: restored out)
qed

text \<open>
  At the first vector of EIP-55, and at the same address with chain id 30 (the
  first vector of EIP-1191).
\<close>

theorem toChecksumAddress_idempotent_witness:
  "toChecksumAddress ''0x5aAeb6053F3E94C9b9A09f33669435E7Ef1BeAed'' None
     = Inr ''0x5aAeb6053F3E94C9b9A09f33669435E7Ef1BeAed''
   \<and> toChecksumAddress ''0x5aaEB6053f3e94c9b9a09f33669435E7ef1bEAeD'' (Some (Number 30))
     = Inr ''0x5aaEB6053f3e94c9b9a09f33669435E7ef1bEAeD''"
  using toChecksumAddress_idempotent [OF checksum_vector_1]
        toChecksumAddress_idempotent [OF checksum_vector_3]
  by simp

end
